theory Spec2Isabelle
  imports Complex_Main "HOL-Library.Word"
begin

section \<open>Frames, the array store and logging\<close>

text \<open>
  A decoded frame is a numpy array of unsigned bytes: a luminance plane (two axes) or a
  BGR picture (three axes, three channels). Rows are lists of pixels.
\<close>

type_synonym pixel = "8 word"
type_synonym gray_image = "pixel list list"
type_synonym bgr_image = "(pixel \<times> pixel \<times> pixel) list list"

datatype image = Gray gray_image | BGR bgr_image

text \<open>\<open>frame.size\<close>: the number of array elements.\<close>

definition gray_size :: "gray_image \<Rightarrow> nat" where
  "gray_size g = length (concat g)"

fun frame_size :: "image \<Rightarrow> nat" where
  "frame_size (Gray g) = gray_size g"
| "frame_size (BGR c) = 3 * length (concat c)"

text \<open>
  Python exceptions are values. The message of an exception is all the source ever
  inspects (it formats it into a log line).
\<close>

datatype py_error = ZeroDivisionError | TypeError | ValueError | OverflowError
  | AttributeError | FieldDoesNotExist

datatype level = DEBUG | INFO | WARNING | ERROR

text \<open>
  The routines of OpenCV the source calls and whose code is not part of the repository.
  \<open>cv2.cvtColor(frame, COLOR_BGR2GRAY)\<close> works pixel by pixel, so it is given by its
  pixel function; \<open>cv2.Laplacian(gray, CV_64F).var()\<close> is given as a whole;
  \<open>cv2.rotate\<close> by its three rotation codes.
\<close>

datatype rotate_code = ROTATE_90_CLOCKWISE | ROTATE_180 | ROTATE_90_COUNTERCLOCKWISE

record cv_lib =
  bgr2gray :: "pixel \<times> pixel \<times> pixel \<Rightarrow> pixel"
  laplacian_var :: "gray_image \<Rightarrow> real"
  cv_rotate :: "rotate_code \<Rightarrow> image \<Rightarrow> image"

definition cvtColor :: "cv_lib \<Rightarrow> bgr_image \<Rightarrow> gray_image" where
  "cvtColor lib c = map (map (bgr2gray lib)) c"

section \<open>FrameHealthValidator (src/engine/src/core/utils/health.py)\<close>

record frame_health_validator =
  entropy_thresh :: real
  white_thresh :: real
  blur_thresh :: real
  black_thresh :: real

text \<open>
  \<open>__init__(self, entropy_thresh=4.0, white_thresh=0.6, blur_thresh=100.0,
  black_thresh=10.0)\<close>: an argument that is not passed takes its default.
\<close>

definition FrameHealthValidator_init ::
  "real option \<Rightarrow> real option \<Rightarrow> real option \<Rightarrow> real option \<Rightarrow> frame_health_validator" where
  "FrameHealthValidator_init et wt bt kt =
     \<lparr> entropy_thresh = (case et of None \<Rightarrow> 4 | Some x \<Rightarrow> x),
       white_thresh = (case wt of None \<Rightarrow> 6 / 10 | Some x \<Rightarrow> x),
       blur_thresh = (case bt of None \<Rightarrow> 100 | Some x \<Rightarrow> x),
       black_thresh = (case kt of None \<Rightarrow> 10 | Some x \<Rightarrow> x) \<rparr>"

text \<open>
  A reason is the string the source appends; the number the source formats into the
  string is kept as the argument of the constructor. \<open>Disconnected\<close> is the reason
  the health monitor of the camera writes.
\<close>

datatype reason = Empty_Frame | Low_Entropy real | White_Screen real
  | Black_Screen real | Blurry real | Disconnected

text \<open>
  \<open>cv2.calcHist([gray], [0], None, [256], [0, 256]).ravel()\<close>: bin \<open>i\<close> counts
  the pixels of intensity \<open>i\<close>.
\<close>

definition calcHist :: "gray_image \<Rightarrow> nat list" where
  "calcHist g = map (\<lambda>i. count_list (concat g) (of_nat i)) [0..<256]"

definition calculate_entropy :: "gray_image \<Rightarrow> real" where
  "calculate_entropy gray_frame =
     (let p = map real (calcHist gray_frame);
          s = sum_list p
      in if s \<le> 0 then 0
         else let p = map (\<lambda>x. x / s) p;
                  p = filter (\<lambda>x. x > 0) p
              in - sum_list (map (\<lambda>x. x * log 2 x) p))"

text \<open>\<open>np.sum(gray_frame > 220)\<close>.\<close>

definition count_above :: "nat \<Rightarrow> gray_image \<Rightarrow> nat" where
  "count_above t g = length (filter (\<lambda>x. unat x > t) (concat g))"

text \<open>
  The division of \<open>_check_glitch\<close> is a division of Python floats: on an array
  without elements it raises.
\<close>

definition check_glitch ::
  "frame_health_validator \<Rightarrow> gray_image \<Rightarrow> py_error + (bool \<times> reason list)" where
  "check_glitch v gray_frame =
     (let entropy_val = calculate_entropy gray_frame;
          (reasons, is_glitched) =
             (if entropy_val < entropy_thresh v then ([Low_Entropy entropy_val], True)
              else ([], False))
      in if gray_size gray_frame = 0 then Inl ZeroDivisionError
         else let white_ratio = real (count_above 220 gray_frame) / real (gray_size gray_frame)
              in if white_ratio > white_thresh v
                 then Inr (True, reasons @ [White_Screen white_ratio])
                 else Inr (is_glitched, reasons))"

definition check_blur :: "cv_lib \<Rightarrow> frame_health_validator \<Rightarrow> gray_image \<Rightarrow> bool \<times> real" where
  "check_blur lib v gray_frame =
     (let laplacian_var = laplacian_var lib gray_frame
      in (laplacian_var < blur_thresh v, laplacian_var))"

text \<open>\<open>np.mean(gray_frame)\<close>: the sum of the intensities over their number.\<close>

definition np_mean :: "gray_image \<Rightarrow> real" where
  "np_mean g = real (sum_list (map unat (concat g))) / real (gray_size g)"

definition check_black_screen :: "frame_health_validator \<Rightarrow> gray_image \<Rightarrow> bool \<times> real" where
  "check_black_screen v gray_frame =
     (let mean_intensity = np_mean gray_frame
      in (mean_intensity < black_thresh v, mean_intensity))"

text \<open>The luminance plane \<open>validate\<close> computes once for all checks.\<close>

fun luminance :: "cv_lib \<Rightarrow> image \<Rightarrow> gray_image" where
  "luminance lib (BGR c) = cvtColor lib c"
| "luminance lib (Gray g) = g"

definition validate ::
  "cv_lib \<Rightarrow> frame_health_validator \<Rightarrow> image option \<Rightarrow> py_error + (bool \<times> reason list)" where
  "validate lib v frame =
     (case frame of
        None \<Rightarrow> Inr (False, [Empty_Frame])
      | Some f \<Rightarrow>
          if frame_size f = 0 then Inr (False, [Empty_Frame])
          else
            let gray = luminance lib f in
            (case check_glitch v gray of
               Inl e \<Rightarrow> Inl e
             | Inr (is_glitched, glitch_reasons) \<Rightarrow>
                 let reasons = (if is_glitched then [] @ glitch_reasons else []);
                     (is_black, black_val) = check_black_screen v gray;
                     reasons = (if is_black then reasons @ [Black_Screen black_val] else reasons);
                     (is_blurry, blur_val) = check_blur lib v gray;
                     reasons = (if is_blurry then reasons @ [Blurry blur_val] else reasons);
                     is_healthy = (length reasons = 0)
                 in Inr (is_healthy, reasons)))"

text \<open>The four measurements of a frame that has elements.\<close>

definition entropy_of :: "cv_lib \<Rightarrow> image \<Rightarrow> real" where
  "entropy_of lib f = calculate_entropy (luminance lib f)"

definition white_ratio_of :: "cv_lib \<Rightarrow> image \<Rightarrow> real" where
  "white_ratio_of lib f =
     real (count_above 220 (luminance lib f)) / real (gray_size (luminance lib f))"

definition mean_of :: "cv_lib \<Rightarrow> image \<Rightarrow> real" where
  "mean_of lib f = np_mean (luminance lib f)"

definition blur_of :: "cv_lib \<Rightarrow> image \<Rightarrow> real" where
  "blur_of lib f = laplacian_var lib (luminance lib f)"

text \<open>
  The reasons \<open>validate\<close> collects, written with its four measurements: for a frame
  that has elements, one code per check that fires, in the order low entropy, white
  screen, black screen, blur; for a missing frame or one without elements, the single
  code of the empty frame.
\<close>

definition image_reasons :: "cv_lib \<Rightarrow> frame_health_validator \<Rightarrow> image \<Rightarrow> reason list" where
  "image_reasons lib v f =
     (if entropy_of lib f < entropy_thresh v then [Low_Entropy (entropy_of lib f)] else []) @
     (if white_ratio_of lib f > white_thresh v then [White_Screen (white_ratio_of lib f)] else []) @
     (if mean_of lib f < black_thresh v then [Black_Screen (mean_of lib f)] else []) @
     (if blur_of lib f < blur_thresh v then [Blurry (blur_of lib f)] else [])"

definition reason_codes :: "cv_lib \<Rightarrow> frame_health_validator \<Rightarrow> image option \<Rightarrow> reason list" where
  "reason_codes lib v frame =
     (case frame of
        None \<Rightarrow> [Empty_Frame]
      | Some f \<Rightarrow> if frame_size f = 0 then [Empty_Frame] else image_reasons lib v f)"

text \<open>A library instance for evaluating the model on concrete frames.\<close>

definition lib0 :: cv_lib where
  "lib0 = \<lparr> bgr2gray = (\<lambda>(b, g, r). g), laplacian_var = (\<lambda>g. 0), cv_rotate = (\<lambda>c f. f) \<rparr>"

subsection \<open>The measurements as the specification words them\<close>

text \<open>
  The luminance plane of a frame: the frame itself when it has two axes, the plane of
  the pixelwise grey values of a BGR picture otherwise; and its pixels in row order.
\<close>

fun luminance_plane :: "cv_lib \<Rightarrow> image \<Rightarrow> gray_image" where
  "luminance_plane lib (Gray g) = g"
| "luminance_plane lib (BGR c) = map (map (bgr2gray lib)) c"

definition luminance_pixels :: "cv_lib \<Rightarrow> image \<Rightarrow> pixel list" where
  "luminance_pixels lib f = concat (luminance_plane lib f)"

text \<open>
  The Shannon entropy of the 256-bin histogram of the pixels \<open>xs\<close>: with \<open>p v\<close> the
  share of the pixels of intensity \<open>v\<close>, the sum of \<open>- p v * log\<^sub>2 (p v)\<close> over the
  intensities that occur.
\<close>

definition shannon_entropy :: "pixel list \<Rightarrow> real" where
  "shannon_entropy xs =
     (if xs = [] then 0
      else - (\<Sum>v\<in>set xs. (real (count_list xs v) / real (length xs)) *
                           log 2 (real (count_list xs v) / real (length xs))))"

text \<open>The fraction of the pixels whose intensity is above \<open>t\<close>.\<close>

definition fraction_above :: "nat \<Rightarrow> pixel list \<Rightarrow> real" where
  "fraction_above t xs = real (card {k. k < length xs \<and> t < unat (xs ! k)}) / real (length xs)"

text \<open>The mean intensity of the pixels.\<close>

definition mean_intensity :: "pixel list \<Rightarrow> real" where
  "mean_intensity xs = (\<Sum>k<length xs. real (unat (xs ! k))) / real (length xs)"

text \<open>
  The reason codes of the specification: the code of the empty frame for a missing frame
  or one without elements; otherwise one code for each of: entropy below the entropy
  threshold, fraction of pixels above 220 exceeding the white threshold, mean intensity
  below the black threshold, variance of the Laplacian below the blur threshold.
\<close>

definition spec_image_reasons :: "cv_lib \<Rightarrow> frame_health_validator \<Rightarrow> image \<Rightarrow> reason list" where
  "spec_image_reasons lib v f =
     (if shannon_entropy (luminance_pixels lib f) < entropy_thresh v
      then [Low_Entropy (shannon_entropy (luminance_pixels lib f))] else []) @
     (if fraction_above 220 (luminance_pixels lib f) > white_thresh v
      then [White_Screen (fraction_above 220 (luminance_pixels lib f))] else []) @
     (if mean_intensity (luminance_pixels lib f) < black_thresh v
      then [Black_Screen (mean_intensity (luminance_pixels lib f))] else []) @
     (if laplacian_var lib (luminance_plane lib f) < blur_thresh v
      then [Blurry (laplacian_var lib (luminance_plane lib f))] else [])"

definition spec_reason_codes ::
  "cv_lib \<Rightarrow> frame_health_validator \<Rightarrow> image option \<Rightarrow> reason list" where
  "spec_reason_codes lib v fr =
     (case fr of
        None \<Rightarrow> [Empty_Frame]
      | Some f \<Rightarrow> if frame_size f = 0 then [Empty_Frame] else spec_image_reasons lib v f)"

text \<open>
  A library instance whose Laplacian variance is 500 on every plane, and two frames:
  sixteen pixels of sixteen intensities, and a BGR picture whose green channel is
  saturated.
\<close>

definition lib1 :: cv_lib where
  "lib1 = \<lparr> bgr2gray = (\<lambda>(b, g, r). g), laplacian_var = (\<lambda>g. 500), cv_rotate = (\<lambda>c f. f) \<rparr>"

definition frame16 :: image where
  "frame16 = Gray [[100, 101, 102, 103], [104, 105, 106, 107],
                   [108, 109, 110, 111], [112, 113, 114, 115]]"

definition frame_white :: image where
  "frame_white = BGR [[(0, 255, 0), (3, 255, 9)]]"

section \<open>The array store\<close>

text \<open>
  numpy arrays are objects with identity: two names can refer to one array. The store
  lists the arrays that exist, and a reference is an index into it. \<open>copy()\<close> makes
  a new array of the same content. Python never holds a reference to an array that does
  not exist, so a reference \<open>a\<close> is read only with \<open>a < length h\<close>.
\<close>

type_synonym addr = nat
type_synonym store = "image list"

definition alloc :: "store \<Rightarrow> image \<Rightarrow> addr \<times> store" where
  "alloc h img = (length h, h @ [img])"

definition copy_array :: "store \<Rightarrow> addr \<Rightarrow> addr \<times> store" where
  "copy_array h a = alloc h (h ! a)"

section \<open>IP_Camera (src/engine/src/core/sensors/ip_camera.py)\<close>

text \<open>
  What the camera does to its collaborators, in the order it does it: the calls on the
  capture handle, the sleeps, the calls of \<open>connect\<close> and the log lines. The source
  keeps no such list; it is recorded here so that the order of these calls can be stated.
\<close>

datatype cam_event = Cap_Release | Cam_Sleep real | Connect_Call | Cam_Log level string

record ip_camera =
  is_video_file :: bool
  rotation :: int
  reconnect_interval :: real
  capture :: bool
  is_open :: bool
  fps :: real
  frame_width :: nat
  frame_height :: nat
  last_frame :: "addr option"
  last_frame_time :: real
  health_validator :: frame_health_validator
  is_connected :: bool
  is_corrupted :: bool
  health_issues :: "reason list"
  cam_trace :: "cam_event list"

text \<open>
  \<open>__init__\<close>: \<open>rotation % 360\<close>; \<open>reconnect_interval\<close> is 5 unless passed;
  \<open>is_file\<close> is what \<open>os.path.isfile(ip_address)\<close> answers. The field
  \<open>capture\<close> says whether \<open>self.capture\<close> holds a handle (it is None at first).
\<close>

definition IP_Camera_init :: "bool \<Rightarrow> int \<Rightarrow> real option \<Rightarrow> ip_camera" where
  "IP_Camera_init is_file rot ri =
     \<lparr> is_video_file = is_file,
       rotation = rot mod 360,
       reconnect_interval = (case ri of None \<Rightarrow> 5 | Some x \<Rightarrow> x),
       capture = False,
       is_open = False,
       fps = 0,
       frame_width = 0,
       frame_height = 0,
       last_frame = None,
       last_frame_time = 0,
       health_validator = FrameHealthValidator_init None None None None,
       is_connected = False,
       is_corrupted = False,
       health_issues = [],
       cam_trace = [] \<rparr>"

definition cam_log :: "level \<Rightarrow> string \<Rightarrow> ip_camera \<Rightarrow> ip_camera" where
  "cam_log l msg cam = cam\<lparr>cam_trace := cam_trace cam @ [Cam_Log l msg]\<rparr>"

definition cam_do :: "cam_event \<Rightarrow> ip_camera \<Rightarrow> ip_camera" where
  "cam_do ev cam = cam\<lparr>cam_trace := cam_trace cam @ [ev]\<rparr>"

text \<open>
  \<open>_apply_rotation\<close>: the frame itself for rotation 0 (and for any angle that is not
  90, 180 or 270), a new array from \<open>cv2.rotate\<close> otherwise.
\<close>

definition apply_rotation :: "cv_lib \<Rightarrow> ip_camera \<Rightarrow> store \<Rightarrow> addr \<Rightarrow> addr \<times> store" where
  "apply_rotation lib cam h a =
     (if rotation cam = 0 then (a, h)
      else if rotation cam = 90 then alloc h (cv_rotate lib ROTATE_90_CLOCKWISE (h ! a))
      else if rotation cam = 180 then alloc h (cv_rotate lib ROTATE_180 (h ! a))
      else if rotation cam = 270 then alloc h (cv_rotate lib ROTATE_90_COUNTERCLOCKWISE (h ! a))
      else (a, h))"

text \<open>\<open>_update_frame_buffer\<close>; \<open>now\<close> is what \<open>time.time()\<close> answers.\<close>

definition update_frame_buffer ::
  "cv_lib \<Rightarrow> real \<Rightarrow> addr \<Rightarrow> store \<times> ip_camera \<Rightarrow> store \<times> ip_camera" where
  "update_frame_buffer lib now a hc =
     (let (h, cam) = hc;
          (processed_frame, h') = apply_rotation lib cam h a
      in (h', cam\<lparr>last_frame := Some processed_frame, last_frame_time := now\<rparr>))"

text \<open>
  \<open>frame.shape[:2]\<close>. A list of rows that is empty stands for an array without rows,
  whose width the list does not record; it is read as 0.
\<close>

fun image_shape :: "image \<Rightarrow> nat \<times> nat" where
  "image_shape (Gray g) = (length g, (case g of [] \<Rightarrow> 0 | r # _ \<Rightarrow> length r))"
| "image_shape (BGR c) = (length c, (case c of [] \<Rightarrow> 0 | r # _ \<Rightarrow> length r))"

text \<open>
  \<open>_extract_metadata\<close>; \<open>cap_fps\<close> is what \<open>capture.get(CAP_PROP_FPS)\<close>
  answers, and \<open>x or 30.0\<close> is 30 when \<open>x\<close> is zero.
\<close>

definition extract_metadata :: "real \<Rightarrow> image \<Rightarrow> ip_camera \<Rightarrow> ip_camera" where
  "extract_metadata cap_fps frame cam =
     (let (h, w) = image_shape frame;
          cam1 = cam\<lparr>fps := (if cap_fps = 0 then 30 else cap_fps)\<rparr>
      in if rotation cam = 90 \<or> rotation cam = 270
         then cam1\<lparr>frame_width := h, frame_height := w\<rparr>
         else cam1\<lparr>frame_width := w, frame_height := h\<rparr>)"

text \<open>
  What \<open>capture.read()\<close> does: it raises, or it returns \<open>(ok, frame)\<close> where the
  frame is a new array or None.
\<close>

datatype read_outcome = Read_Raises string | Read_Returns bool "image option"

text \<open>
  What the outside world answers during one call of \<open>connect\<close>: whether the handle
  that \<open>_connect_file\<close> or \<open>_connect_stream\<close> ends with is opened, the warm-up
  read, the frame rate of the handle and the clock.
\<close>

record connect_env =
  is_opened :: bool
  warmup :: read_outcome
  cap_fps :: real
  connect_clock :: real

text \<open>
  \<open>connect\<close>. The handle is replaced by a new one; the exception of a warm-up read
  that raises leaves \<open>connect\<close> (the result is \<open>Inl\<close>).
\<close>

definition connect ::
  "cv_lib \<Rightarrow> connect_env \<Rightarrow> store \<times> ip_camera \<Rightarrow> (string + bool) \<times> store \<times> ip_camera" where
  "connect lib env hc =
     (let (h, cam0) = hc;
          cam1 = cam_log INFO ''Connecting'' (cam_do Connect_Call cam0);
          cam2 = cam1\<lparr>capture := True\<rparr>
      in if is_opened env then
           (case warmup env of
              Read_Raises e \<Rightarrow> (Inl e, h, cam2)
            | Read_Returns ok None \<Rightarrow> (Inr False, h, cam_log ERROR ''Failed to connect'' cam2)
            | Read_Returns ok (Some img) \<Rightarrow>
                if ok then
                  let (a, h1) = alloc h img;
                      (h2, cam3) = update_frame_buffer lib (connect_clock env) a
                                     (h1, cam2\<lparr>is_open := True\<rparr>);
                      cam4 = extract_metadata (cap_fps env) img cam3
                  in (Inr True, h2, cam_log INFO ''Connected'' cam4)
                else (Inr False, h, cam_log ERROR ''Failed to connect'' cam2))
         else (Inr False, h, cam_log ERROR ''Failed to connect'' cam2))"

text \<open>\<open>_reconnect\<close>: release the handle if there is one, sleep, connect again.\<close>

definition reconnect :: "cv_lib \<Rightarrow> connect_env \<Rightarrow> store \<times> ip_camera \<Rightarrow> store \<times> ip_camera" where
  "reconnect lib env hc =
     (let (h, cam0) = hc;
          cam1 = cam_log WARNING ''Attempting to reconnect'' cam0;
          cam2 = (if capture cam1 then cam_do Cap_Release cam1 else cam1);
          cam3 = cam_do (Cam_Sleep (reconnect_interval cam2)) cam2
      in case connect lib env (h, cam3) of
           (Inl e, h', cam4) \<Rightarrow> (h', cam_log ERROR (''Reconnection failed: '' @ e) cam4)
         | (Inr _, h', cam4) \<Rightarrow> (h', cam4))"

text \<open>
  \<open>read\<close>: the public, thread-safe read. It returns \<open>(False, None)\<close> or
  \<open>(True, copy)\<close>; the copy is a new array in the store.
\<close>

definition read :: "store \<times> ip_camera \<Rightarrow> (bool \<times> addr option) \<times> store" where
  "read hc =
     (let (h, cam) = hc
      in if \<not> is_open cam then ((False, None), h)
         else (case last_frame cam of
                 None \<Rightarrow> ((False, None), h)
               | Some a \<Rightarrow> let (c, h') = copy_array h a in ((True, Some c), h')))"

text \<open>
  One turn of the loop of \<open>_reader_loop\<close>, after the test of the stop event. The
  state is the store, the camera and the local counter \<open>read_errors\<close>.
\<close>

record reader_env =
  reader_stop :: bool
  conn :: connect_env
  rd :: read_outcome
  reader_clock :: real

definition reader_sleep :: "ip_camera \<Rightarrow> ip_camera" where
  "reader_sleep cam =
     (if is_video_file cam then cam_do (Cam_Sleep (1 / max (fps cam) 1)) cam
      else cam_do (Cam_Sleep (5 / 1000)) cam)"

definition reader_iter ::
  "cv_lib \<Rightarrow> reader_env \<Rightarrow> store \<times> ip_camera \<times> nat \<Rightarrow> store \<times> ip_camera \<times> nat" where
  "reader_iter lib env st =
     (let (h, cam, read_errors) = st
      in if \<not> is_open cam then
           (let (h', cam') = reconnect lib (conn env) (h, cam) in (h', cam', read_errors))
         else
           let (ok, frame, cam1) =
                 (case rd env of
                    Read_Raises e \<Rightarrow> (False, None, cam_log ERROR (''Read exception: '' @ e) cam)
                  | Read_Returns ok frame \<Rightarrow> (ok, frame, cam))
           in if ok \<and> frame \<noteq> None then
                (let (a, h1) = alloc h (the frame);
                     (h2, cam2) = update_frame_buffer lib (reader_clock env) a (h1, cam1)
                 in (h2, reader_sleep cam2, 0))
              else
                (let read_errors = read_errors + 1
                 in if read_errors > 10
                    then (h, (cam_log WARNING ''Connection lost (Read Errors)'' cam1)\<lparr>is_open := False\<rparr>,
                          read_errors)
                    else (h, reader_sleep cam1, read_errors)))"

text \<open>
  \<open>_reader_loop\<close>: one observation of the outside world per turn; the loop ends when
  it finds the stop event set. With the observations used up the loop is still running.
\<close>

datatype loop_status = Stopped | Running

fun reader_turns ::
  "cv_lib \<Rightarrow> reader_env list \<Rightarrow> store \<times> ip_camera \<times> nat \<Rightarrow> loop_status \<times> store \<times> ip_camera \<times> nat" where
  "reader_turns lib [] st = (Running, st)"
| "reader_turns lib (e # es) st =
     (if reader_stop e then (Stopped, st) else reader_turns lib es (reader_iter lib e st))"

definition reader_loop ::
  "cv_lib \<Rightarrow> reader_env list \<Rightarrow> store \<times> ip_camera \<Rightarrow> loop_status \<times> store \<times> ip_camera \<times> nat" where
  "reader_loop lib es hc = reader_turns lib es (fst hc, snd hc, 0)"

text \<open>\<open>_log_health_status\<close>.\<close>

definition log_health_status :: "ip_camera \<Rightarrow> ip_camera" where
  "log_health_status cam =
     (if \<not> is_connected cam then cam_log WARNING ''HEALTH ALERT: Camera Disconnected'' cam
      else if is_corrupted cam then cam_log WARNING ''HEALTH ALERT: Image Issues'' cam
      else cam)"

text \<open>
  One turn of \<open>_health_loop\<close>, after the sleep: \<open>now\<close> is what \<open>time.time()\<close>
  answers. An exception of the validator is caught and logged; the fields written before
  it stay written.
\<close>

definition health_tick :: "cv_lib \<Rightarrow> real \<Rightarrow> store \<times> ip_camera \<Rightarrow> store \<times> ip_camera" where
  "health_tick lib now hc =
     (let (h, cam) = hc;
          time_since_last_frame = now - last_frame_time cam;
          threshold = max 5 ((1 / max 1 (fps cam)) * 10);
          cam1 = cam\<lparr>is_connected := time_since_last_frame < threshold\<rparr>;
          (frame_sample, h1) =
             (case last_frame cam1 of
                None \<Rightarrow> (None, h)
              | Some a \<Rightarrow> let (c, h') = copy_array h a in (Some c, h'))
      in if is_connected cam1 \<and> frame_sample \<noteq> None then
           (case validate lib (health_validator cam1) (Some (h1 ! the frame_sample)) of
              Inl e \<Rightarrow> (h1, cam_log ERROR ''Health check failed'' cam1)
            | Inr (is_healthy, reasons) \<Rightarrow>
                (h1, log_health_status (cam1\<lparr>is_corrupted := \<not> is_healthy, health_issues := reasons\<rparr>)))
         else (h1, log_health_status (cam1\<lparr>is_corrupted := False, health_issues := [Disconnected]\<rparr>)))"

text \<open>
  \<open>_health_loop\<close>: every turn sleeps \<open>interval\<close> seconds and runs the checks; the
  list holds the clock readings of the turns taken before the stop event is found set.
\<close>

fun health_loop :: "cv_lib \<Rightarrow> real \<Rightarrow> real list \<Rightarrow> store \<times> ip_camera \<Rightarrow> store \<times> ip_camera" where
  "health_loop lib interval [] hc = hc"
| "health_loop lib interval (now # ts) hc =
     health_loop lib interval ts
       (health_tick lib now (fst hc, cam_do (Cam_Sleep interval) (snd hc)))"

text \<open>The threshold of the specification: \<open>max(5.0, 10 \<times> 1/fps)\<close>.\<close>

definition spec_threshold :: "real \<Rightarrow> real" where
  "spec_threshold f = max 5 (10 * (1 / f))"

text \<open>A camera on a live stream with default settings, for evaluating the model.\<close>

definition cam0 :: ip_camera where
  "cam0 = IP_Camera_init False 0 None"

text \<open>
  The state the health monitor leaves behind, as the claim words it: a source that is
  not connected is not corrupted and has the single issue \<open>Disconnected\<close>; the
  corrupted flag is set, and the issues are reason codes of the image checks, only when
  the source is connected and a frame is buffered.
\<close>

definition health_inv :: "ip_camera \<Rightarrow> bool" where
  "health_inv cam \<longleftrightarrow>
     (\<not> is_connected cam \<longrightarrow> \<not> is_corrupted cam \<and> health_issues cam = [Disconnected]) \<and>
     (is_corrupted cam \<longrightarrow> is_connected cam \<and> last_frame cam \<noteq> None) \<and>
     (health_issues cam \<noteq> [Disconnected] \<longrightarrow> is_connected cam \<and> last_frame cam \<noteq> None)"






section \<open>Python values\<close>

text \<open>
  The values the stages put into a payload and the metadata handler reads. A float is a
  real number or one of the three special values; the rounding of the double format is
  not modelled. A dict is the list of its items in insertion order.
\<close>

datatype pyfloat = Fin real | PosInf | NegInf | NaN

datatype pyval = PNone | PBool bool | PInt int | PFloat pyfloat | PStr string
  | PList "pyval list" | PDict "(pyval \<times> pyval) list"

text \<open>
  A field of a track is a Python value or a numpy array, which is given by the value its
  \<open>tolist()\<close> returns.
\<close>

datatype npval = Py pyval | NdArray pyval

text \<open>
  The track map of the predictor contract: a dict from track ids to the dict of the
  track's fields. An entry of \<open>meta\<close> is a track map or a plain Python value.
\<close>

type_synonym details = "(string \<times> npval) list"
type_synonym track_map = "(pyval \<times> details) list"

datatype meta_value = Track_Map track_map | Value pyval

section \<open>DynamicEngine.run (src/engine/main.py)\<close>

text \<open>
  The payload is the dict \<open>run\<close> builds for every captured frame; its five keys are
  always present, so it is a record. The two frames are references into the array store.
\<close>

record payload =
  frame :: addr
  original_frame :: addr
  timestamp :: real
  frame_number :: nat
  meta :: "string \<rightharpoonup> meta_value"

text \<open>
  What \<open>module.process(payload)\<close> does: it returns a payload, or None (abort this
  frame), or it raises. A stage reads and changes the arrays and a state \<open>'w\<close> of its
  own and of whatever else it touches.
\<close>

datatype stage_result = Returned "payload option" | Raised string

type_synonym 'w stage = "payload \<Rightarrow> store \<times> 'w \<Rightarrow> stage_result \<times> (store \<times> 'w)"

text \<open>
  What \<open>run\<close> does in the order it does it. \<open>Call i p r\<close>: the stage at position
  \<open>i\<close> of \<open>pipeline_modules\<close> was called with payload \<open>p\<close> and answered \<open>r\<close>.
  The source keeps no such list; it is recorded so that the order of the calls can be
  stated.
\<close>

datatype eng_event = Eng_Log level string | Eng_Sleep real | Call nat payload stage_result
  | Cleanup_Call

record 'w engine =
  eng_store :: store
  world :: 'w
  frame_count :: nat
  eng_trace :: "eng_event list"

definition eng_do :: "eng_event \<Rightarrow> 'w engine \<Rightarrow> 'w engine" where
  "eng_do ev st = st\<lparr>eng_trace := eng_trace st @ [ev]\<rparr>"

text \<open>
  Step 2 of the loop: \<open>capture.read()\<close> has returned a new array \<open>img\<close>; the payload
  holds it, a copy of it, the time, the frame count and an empty \<open>meta\<close>.
\<close>

definition create_payload :: "store \<Rightarrow> image \<Rightarrow> real \<Rightarrow> nat \<Rightarrow> payload \<times> store" where
  "create_payload h img now n =
     (let (a, h1) = alloc h img;
          (c, h2) = copy_array h1 a
      in (\<lparr> frame = a, original_frame = c, timestamp = now, frame_number = n,
             meta = Map.empty \<rparr>, h2))"

text \<open>
  Step 3, the loop over \<open>self.pipeline_modules\<close>: the payload a stage returns is the
  one the next stage gets; None ends the loop (\<open>break\<close>), an exception leaves it.
\<close>

fun run_stages ::
  "'w stage list \<Rightarrow> nat \<Rightarrow> payload \<Rightarrow> store \<times> 'w \<Rightarrow> (stage_result \<times> (store \<times> 'w)) \<times> eng_event list" where
  "run_stages [] i p sw = ((Returned (Some p), sw), [])"
| "run_stages (m # ms) i p sw =
     (case m p sw of
        (Returned (Some p'), sw') \<Rightarrow>
          (case run_stages ms (Suc i) p' sw' of
             (res, evs) \<Rightarrow> (res, Call i p (Returned (Some p')) # evs))
      | (r, sw') \<Rightarrow> ((r, sw'), [Call i p r]))"

text \<open>
  What the outside world answers during one turn of the loop: the shutdown event, the
  camera's \<open>is_open\<close>, the read of the capture handle and the clock.
\<close>

record run_env =
  shutdown :: bool
  camera_open :: bool
  cap_read :: read_outcome
  utc_now :: real

datatype loop_exit = Loop_Ended | Loop_Raised string | Loop_Running

text \<open>
  The \<open>while\<close> loop of \<open>run\<close>. It ends when the guard fails (\<open>Loop_Ended\<close>) or
  when an exception leaves it (\<open>Loop_Raised\<close>): one raised by the read, by
  \<open>frame.copy()\<close> on a frame that is None, or by a stage. With the observations used
  up the loop is still running.
\<close>

fun run_turns :: "'w stage list \<Rightarrow> run_env list \<Rightarrow> 'w engine \<Rightarrow> loop_exit \<times> 'w engine" where
  "run_turns ms [] st = (Loop_Running, st)"
| "run_turns ms (e # es) st =
     (if shutdown e \<or> \<not> camera_open e then (Loop_Ended, st)
      else
        (case cap_read e of
           Read_Raises x \<Rightarrow> (Loop_Raised x, st)
         | Read_Returns ret None \<Rightarrow>
             if \<not> ret
             then run_turns ms es (eng_do (Eng_Sleep (1 / 10)) (eng_do (Eng_Log WARNING ''Empty frame.'') st))
             else (Loop_Raised ''AttributeError'', st)
         | Read_Returns ret (Some img) \<Rightarrow>
             if \<not> ret
             then run_turns ms es (eng_do (Eng_Sleep (1 / 10)) (eng_do (Eng_Log WARNING ''Empty frame.'') st))
             else
               (case create_payload (eng_store st) img (utc_now e) (frame_count st) of
                  (p, h) \<Rightarrow>
                    (case run_stages ms 0 p (h, world st) of
                       ((Raised x, (h', w')), evs) \<Rightarrow>
                          (Loop_Raised x,
                           st\<lparr>eng_store := h', world := w', eng_trace := eng_trace st @ evs\<rparr>)
                     | ((Returned r, (h', w')), evs) \<Rightarrow>
                          run_turns ms es
                            (st\<lparr>eng_store := h', world := w', eng_trace := eng_trace st @ evs,
                                frame_count := frame_count st + 1\<rparr>)))))"

text \<open>
  \<open>run\<close>: the loop inside \<open>try\<close>; \<open>except Exception\<close> logs the error;
  \<open>finally\<close> calls \<open>cleanup\<close>.
\<close>

definition run :: "'w stage list \<Rightarrow> run_env list \<Rightarrow> 'w engine \<Rightarrow> loop_exit \<times> 'w engine" where
  "run ms es st =
     (case run_turns ms es (eng_do (Eng_Log INFO ''Pipeline Started.'') (st\<lparr>frame_count := 0\<rparr>)) of
        (Loop_Running, st') \<Rightarrow> (Loop_Running, st')
      | (Loop_Ended, st') \<Rightarrow> (Loop_Ended, eng_do Cleanup_Call st')
      | (Loop_Raised x, st') \<Rightarrow>
          (Loop_Raised x,
           eng_do Cleanup_Call (eng_do (Eng_Log ERROR (''Pipeline Runtime Error: '' @ x)) st')))"


fun call_index :: "eng_event \<Rightarrow> nat option" where
  "call_index (Call i p r) = Some i"
| "call_index _ = None"





definition stage_boom :: "nat stage" where
  "stage_boom p sw = (Raised ''boom'', sw)"

definition img0 :: image where "img0 = BGR [[(1, 2, 3)]]"

definition env_frame :: run_env where
  "env_frame = \<lparr> shutdown = False, camera_open = True, cap_read = Read_Returns True (Some img0),
                  utc_now = 7 \<rparr>"

definition eng0 :: "nat engine" where
  "eng0 = \<lparr> eng_store = [], world = 0, frame_count = 0, eng_trace = [] \<rparr>"

definition payload0 :: payload where
  "payload0 = \<lparr> frame = 0, original_frame = 1, timestamp = 7, frame_number = 0, meta = Map.empty \<rparr>"

definition stage_flaky :: "nat stage" where
  "stage_flaky p sw = (if snd sw = 0 then (Returned (Some p), (fst sw, 1)) else (Raised ''boom'', sw))"

definition payload1 :: payload where
  "payload1 = \<lparr> frame = 2, original_frame = 3, timestamp = 7, frame_number = 1, meta = Map.empty \<rparr>"

definition eng1 :: "nat engine" where
  "eng1 = \<lparr> eng_store = [img0, img0], world = 1, frame_count = 1,
            eng_trace = [Eng_Log INFO ''Pipeline Started.'', Call 0 payload0 (Returned (Some payload0))] \<rparr>"


section \<open>MetadataHandler (src/engine/src/database/metadata_handler.py)\<close>

subsection \<open>The builtins of Python it uses\<close>

text \<open>
  A dict assignment \<open>d[k] = v\<close> replaces the value of a key that is there and appends
  a key that is not; \<open>d.get(k, default)\<close> is \<open>map_of\<close> with a default.
\<close>

fun dict_set :: "'k \<Rightarrow> 'v \<Rightarrow> ('k \<times> 'v) list \<Rightarrow> ('k \<times> 'v) list" where
  "dict_set k v [] = [(k, v)]"
| "dict_set k v ((k', v') # kvs) = (if k = k' then (k, v) # kvs else (k', v') # dict_set k v kvs)"

definition dict_get :: "('k \<times> 'v) list \<Rightarrow> 'k \<Rightarrow> 'v \<Rightarrow> 'v" where
  "dict_get d k dflt = (case map_of d k of None \<Rightarrow> dflt | Some v \<Rightarrow> v)"

text \<open>The truth value of a Python value, as \<open>if x:\<close> takes it.\<close>

fun py_truthy :: "pyval \<Rightarrow> bool" where
  "py_truthy PNone = False"
| "py_truthy (PBool b) = b"
| "py_truthy (PInt i) = (i \<noteq> 0)"
| "py_truthy (PFloat f) = (f \<noteq> Fin 0)"
| "py_truthy (PStr s) = (s \<noteq> [])"
| "py_truthy (PList xs) = (xs \<noteq> [])"
| "py_truthy (PDict d) = (d \<noteq> [])"

text \<open>
  The parts of Python and numpy whose code is not in the repository: the parsers behind
  \<open>int(str)\<close> and \<open>float(str)\<close>, the text \<open>str()\<close> gives for a value that is not
  a string, \<open>int()\<close> and \<open>float()\<close> of a numpy array, and the double that is nearest
  to an integer which the double format cannot hold exactly (\<open>round_int\<close>).
\<close>

record py_lib =
  parse_int :: "string \<Rightarrow> int option"
  parse_float :: "string \<Rightarrow> pyfloat option"
  repr :: "npval \<Rightarrow> string"
  array_int :: "pyval \<Rightarrow> py_error + int"
  array_float :: "pyval \<Rightarrow> py_error + pyfloat"
  round_int :: "int \<Rightarrow> real"

text \<open>\<open>int(x)\<close>: a float is cut towards zero; infinities and NaN raise.\<close>

definition trunc_real :: "real \<Rightarrow> int" where
  "trunc_real r = (if r \<ge> 0 then \<lfloor>r\<rfloor> else \<lceil>r\<rceil>)"

fun py_int :: "py_lib \<Rightarrow> pyval \<Rightarrow> py_error + int" where
  "py_int lib (PInt i) = Inr i"
| "py_int lib (PBool b) = Inr (if b then 1 else 0)"
| "py_int lib (PFloat (Fin r)) = Inr (trunc_real r)"
| "py_int lib (PFloat NaN) = Inl ValueError"
| "py_int lib (PFloat PosInf) = Inl OverflowError"
| "py_int lib (PFloat NegInf) = Inl OverflowError"
| "py_int lib (PStr s) = (case parse_int lib s of None \<Rightarrow> Inl ValueError | Some i \<Rightarrow> Inr i)"
| "py_int lib PNone = Inl TypeError"
| "py_int lib (PList xs) = Inl TypeError"
| "py_int lib (PDict d) = Inl TypeError"

text \<open>
  \<open>float(x)\<close>. An integer of magnitude up to \<open>2\<^sup>5\<^sup>3\<close> is a double; a larger one
  is rounded to the nearest double; one that rounds beyond the largest double, that is
  one of magnitude \<open>2\<^sup>1\<^sup>0\<^sup>2\<^sup>4 - 2\<^sup>9\<^sup>7\<^sup>0\<close> or more, raises OverflowError.
\<close>

definition int_to_float :: "py_lib \<Rightarrow> int \<Rightarrow> py_error + pyfloat" where
  "int_to_float lib i =
     (if \<bar>i\<bar> \<ge> 2 ^ 1024 - 2 ^ 970 then Inl OverflowError
      else if \<bar>i\<bar> \<le> 2 ^ 53 then Inr (Fin (of_int i))
      else Inr (Fin (round_int lib i)))"

fun py_float :: "py_lib \<Rightarrow> pyval \<Rightarrow> py_error + pyfloat" where
  "py_float lib (PInt i) = int_to_float lib i"
| "py_float lib (PBool b) = Inr (Fin (if b then 1 else 0))"
| "py_float lib (PFloat f) = Inr f"
| "py_float lib (PStr s) = (case parse_float lib s of None \<Rightarrow> Inl ValueError | Some f \<Rightarrow> Inr f)"
| "py_float lib PNone = Inl TypeError"
| "py_float lib (PList xs) = Inl TypeError"
| "py_float lib (PDict d) = Inl TypeError"

fun np_int :: "py_lib \<Rightarrow> npval \<Rightarrow> py_error + int" where
  "np_int lib (Py v) = py_int lib v"
| "np_int lib (NdArray v) = array_int lib v"

fun np_float :: "py_lib \<Rightarrow> npval \<Rightarrow> py_error + pyfloat" where
  "np_float lib (Py v) = py_float lib v"
| "np_float lib (NdArray v) = array_float lib v"

fun py_str :: "py_lib \<Rightarrow> npval \<Rightarrow> string" where
  "py_str lib (Py (PStr s)) = s"
| "py_str lib v = repr lib v"

text \<open>\<open>for x in v\<close>: the elements of a list, the keys of a dict, the characters of a string.\<close>

fun py_iter :: "pyval \<Rightarrow> py_error + pyval list" where
  "py_iter (PList xs) = Inr xs"
| "py_iter (PDict d) = Inr (map fst d)"
| "py_iter (PStr s) = Inr (map (\<lambda>c. PStr [c]) s)"
| "py_iter v = Inl TypeError"

text \<open>A list comprehension over a function that can raise stops at the first exception.\<close>

fun map_err :: "('a \<Rightarrow> 'e + 'b) \<Rightarrow> 'a list \<Rightarrow> 'e + 'b list" where
  "map_err f [] = Inr []"
| "map_err f (x # xs) =
     (case f x of
        Inl e \<Rightarrow> Inl e
      | Inr y \<Rightarrow> (case map_err f xs of Inl e \<Rightarrow> Inl e | Inr ys \<Rightarrow> Inr (y # ys)))"

subsection \<open>The handler\<close>

text \<open>The dict \<open>process\<close> puts on the queue.\<close>

record item =
  item_frame_number :: nat
  item_time_stamp :: real
  item_track_ids_info :: meta_value
  item_raw_frame_path :: meta_value
  item_plotted_frame_path :: meta_value
  item_inference_time :: meta_value

text \<open>
  The keyword arguments \<open>_format_metadata\<close> passes to the constructor of the document
  class \<open>Metadata\<close>, with their values. A document is represented by the arguments it
  was built from.
\<close>

type_synonym formatted_track = "(string \<times> npval) list"

record metadata_doc =
  kw_frame_number :: nat
  kw_time_stamp :: real
  kw_raw_frame_path :: meta_value
  kw_plotted_frame_path :: meta_value
  kw_device :: pyval
  kw_inference_time :: pyfloat
  kw_track_ids_info :: "(string \<times> formatted_track) list"

text \<open>
  The fields the class \<open>Metadata\<close> declares (src/engine/src/database/schemas/
  metadata_schema.py), and the keywords of the call \<open>Metadata(...)\<close> in
  \<open>_format_metadata\<close>: the call names \<open>device\<close>, the class declares
  \<open>device_name\<close>.
\<close>

definition Metadata_fields :: "string list" where
  "Metadata_fields = [''frame_number'', ''time_stamp'', ''raw_frame_path'', ''plotted_frame_path'',
                      ''device_name'', ''inference_time'', ''track_ids_info'']"

definition format_keywords :: "string list" where
  "format_keywords = [''frame_number'', ''time_stamp'', ''raw_frame_path'', ''plotted_frame_path'',
                      ''device'', ''inference_time'', ''track_ids_info'']"

text \<open>
  The constructor of a mongoengine \<open>Document\<close> that is neither dynamic nor declared
  non-strict, as \<open>Metadata\<close> is: a keyword that is not a declared field (nor one of
  \<open>id\<close>, \<open>pk\<close>, \<open>_cls\<close>, \<open>_text_score\<close>) raises \<open>FieldDoesNotExist\<close>. The
  constructor does not look at the values.
\<close>

definition Document_init :: "string list \<Rightarrow> string list \<Rightarrow> py_error option" where
  "Document_init declared keywords =
     (if list_all (\<lambda>k. k \<in> set (declared @ [''id'', ''pk'', ''_cls'', ''_text_score''])) keywords
      then None else Some FieldDoesNotExist)"

text \<open>
  What the handler does in the order it does it: the polls of the queue with their
  timeout, the bulk inserts with the batch they are given, the log lines.
\<close>

datatype mh_event = Queue_Get real | Bulk_Insert "metadata_doc list" | MH_Log level string

record metadata_handler =
  batch_size :: int
  flush_interval :: real
  device_id :: pyval
  device_name :: string
  data_queue :: "item list"
  mh_trace :: "mh_event list"

text \<open>
  \<open>__init__\<close>: \<open>config.get('buffer_size', 100)\<close>, \<open>config.get('flush_interval', 5)\<close>,
  \<open>config.get('device_id')\<close> (None when absent), \<open>config.get('deviceName', 'unknown')\<close>.
\<close>

definition MetadataHandler_init ::
  "int option \<Rightarrow> real option \<Rightarrow> pyval option \<Rightarrow> string option \<Rightarrow> metadata_handler" where
  "MetadataHandler_init buffer_size_cfg flush_interval_cfg device_id_cfg deviceName_cfg =
     \<lparr> batch_size = (case buffer_size_cfg of None \<Rightarrow> 100 | Some n \<Rightarrow> n),
       flush_interval = (case flush_interval_cfg of None \<Rightarrow> 5 | Some x \<Rightarrow> x),
       device_id = (case device_id_cfg of None \<Rightarrow> PNone | Some v \<Rightarrow> v),
       device_name = (case deviceName_cfg of None \<Rightarrow> ''unknown'' | Some n \<Rightarrow> n),
       data_queue = [],
       mh_trace = [MH_Log INFO ''Metadata Batch Writer started''] \<rparr>"

definition mh_do :: "mh_event \<Rightarrow> metadata_handler \<Rightarrow> metadata_handler" where
  "mh_do ev mh = mh\<lparr>mh_trace := mh_trace mh @ [ev]\<rparr>"

text \<open>The truth value of \<open>payload['meta'].get(key)\<close>; a key that is absent gives None.\<close>

fun meta_truthy :: "meta_value option \<Rightarrow> bool" where
  "meta_truthy None = False"
| "meta_truthy (Some (Track_Map t)) = (t \<noteq> [])"
| "meta_truthy (Some (Value v)) = py_truthy v"

definition meta_get :: "payload \<Rightarrow> string \<Rightarrow> pyval \<Rightarrow> meta_value" where
  "meta_get p k dflt = (case meta p k of None \<Rightarrow> Value dflt | Some v \<Rightarrow> v)"

definition make_item :: "payload \<Rightarrow> meta_value \<Rightarrow> item" where
  "make_item p track_info =
     \<lparr> item_frame_number = frame_number p,
       item_time_stamp = timestamp p,
       item_track_ids_info = track_info,
       item_raw_frame_path = meta_get p ''raw_frame_path'' (PStr []),
       item_plotted_frame_path = meta_get p ''plotted_frame_path'' (PStr []),
       item_inference_time = meta_get p ''inference_time'' (PFloat (Fin 0)) \<rparr>"

text \<open>
  \<open>process\<close>. The queue has no bound, so \<open>put\<close> does not raise and the handler of
  its exception is never entered.
\<close>

definition process :: "metadata_handler \<Rightarrow> payload \<Rightarrow> stage_result \<times> metadata_handler" where
  "process mh p =
     (case meta p ''track_ids_info'' of
        None \<Rightarrow> (Returned (Some p), mh)
      | Some track_info \<Rightarrow>
          if meta_truthy (Some track_info)
          then (Returned (Some p), mh\<lparr>data_queue := data_queue mh @ [make_item p track_info]\<rparr>)
          else (Returned (Some p), mh))"

text \<open>\<open>process\<close> as a stage of the pipeline: it does not touch the arrays.\<close>

definition process_stage :: "metadata_handler stage" where
  "process_stage p sw = (case process (snd sw) p of (r, mh') \<Rightarrow> (r, (fst sw, mh')))"

text \<open>
  \<open>raw_tracks.items()\<close>, with \<open>details\<close> read as a dict: a track map has items whose
  values are dicts; a plain dict has items too, and its values must be dicts for
  \<open>details.get\<close> to exist (only their string keys can be looked up); any other value
  has no \<open>items\<close>.
\<close>

fun details_of :: "pyval \<Rightarrow> py_error + details" where
  "details_of (PDict dd) =
     Inr (concat (map (\<lambda>(k, v). (case k of PStr ks \<Rightarrow> [(ks, Py v)] | _ \<Rightarrow> [])) dd))"
| "details_of v = Inl AttributeError"

fun track_items :: "meta_value \<Rightarrow> py_error + (pyval \<times> (py_error + details)) list" where
  "track_items (Track_Map t) = Inr (map (\<lambda>(k, d). (k, Inr d)) t)"
| "track_items (Value (PDict d)) = Inr (map (\<lambda>(k, v). (k, details_of v)) d)"
| "track_items (Value v) = Inl AttributeError"

text \<open>
  The body of the loop over the tracks: the dict built for one track. \<open>bbox_value\<close> is
  the bounding box after \<open>tolist()\<close>, if it was a numpy array.
\<close>

definition bbox_value :: "details \<Rightarrow> pyval" where
  "bbox_value details =
     (case dict_get details ''bbox'' (Py (PList [])) of NdArray v \<Rightarrow> v | Py v \<Rightarrow> v)"

definition format_track :: "py_lib \<Rightarrow> details \<Rightarrow> py_error + formatted_track" where
  "format_track lib details =
     (case py_iter (bbox_value details) of
        Inl e \<Rightarrow> Inl e
      | Inr xs \<Rightarrow>
          (case map_err (py_int lib) xs of
             Inl e \<Rightarrow> Inl e
           | Inr bbox \<Rightarrow>
               (case np_float lib (dict_get details ''confidence'' (Py (PFloat (Fin 0)))) of
                  Inl e \<Rightarrow> Inl e
                | Inr confidence \<Rightarrow>
                    (case np_int lib (dict_get details ''label_id'' (Py (PInt 0))) of
                       Inl e \<Rightarrow> Inl e
                     | Inr label \<Rightarrow>
                         Inr [(''track_id'', Py (PStr (py_str lib (dict_get details ''track_id'' (Py PNone))))),
                              (''bbox'', Py (PList (map PInt bbox))),
                              (''confidence'', Py (PFloat confidence)),
                              (''label'', Py (PInt label)),
                              (''label_name'', dict_get details ''label_name'' (Py (PStr ''unknown''))),
                              (''instance_dict'', dict_get details ''instance_dict'' (Py (PDict [])))]))))"

fun format_tracks ::
  "py_lib \<Rightarrow> (pyval \<times> (py_error + details)) list \<Rightarrow> (string \<times> formatted_track) list \<Rightarrow>
   py_error + (string \<times> formatted_track) list" where
  "format_tracks lib [] formatted_tracks = Inr formatted_tracks"
| "format_tracks lib ((track_key, Inl e) # rest) formatted_tracks = Inl e"
| "format_tracks lib ((track_key, Inr details) # rest) formatted_tracks =
     (case format_track lib details of
        Inl e \<Rightarrow> Inl e
      | Inr t \<Rightarrow> format_tracks lib rest (dict_set (py_str lib (Py track_key)) t formatted_tracks))"

text \<open>\<open>float(item["inference_time"])\<close>.\<close>

fun meta_float :: "py_lib \<Rightarrow> meta_value \<Rightarrow> py_error + pyfloat" where
  "meta_float lib (Value v) = py_float lib v"
| "meta_float lib (Track_Map t) = Inl TypeError"

text \<open>
  The \<open>try\<close> block of \<open>_format_metadata\<close>: any exception in it, that of the
  constructor included, is an \<open>Inl\<close>.
\<close>

definition format_try :: "py_lib \<Rightarrow> metadata_handler \<Rightarrow> item \<Rightarrow> py_error + metadata_doc" where
  "format_try lib mh it =
     (case track_items (item_track_ids_info it) of
        Inl e \<Rightarrow> Inl e
      | Inr raw_tracks \<Rightarrow>
          (case format_tracks lib raw_tracks [] of
             Inl e \<Rightarrow> Inl e
           | Inr formatted_tracks \<Rightarrow>
               (case meta_float lib (item_inference_time it) of
                  Inl e \<Rightarrow> Inl e
                | Inr inference \<Rightarrow>
                    (let kwargs =
                       \<lparr> kw_frame_number = item_frame_number it,
                         kw_time_stamp = item_time_stamp it,
                         kw_raw_frame_path = item_raw_frame_path it,
                         kw_plotted_frame_path = item_plotted_frame_path it,
                         kw_device = (if py_truthy (device_id mh) then device_id mh
                                      else PStr (device_name mh)),
                         kw_inference_time = inference,
                         kw_track_ids_info = formatted_tracks \<rparr>
                     in case Document_init Metadata_fields format_keywords of
                          Some e \<Rightarrow> Inl e
                        | None \<Rightarrow> Inr kwargs))))"

definition format_metadata ::
  "py_lib \<Rightarrow> metadata_handler \<Rightarrow> item \<Rightarrow> metadata_doc option \<times> metadata_handler" where
  "format_metadata lib mh it =
     (case format_try lib mh it of
        Inl e \<Rightarrow> (None, mh_do (MH_Log ERROR ''Metadata formatting error'') mh)
      | Inr doc \<Rightarrow> (Some doc, mh))"



text \<open>
  The first half of a turn: \<open>data_queue.get(timeout=1)\<close>, and the item it gives, if it
  gives one, formatted and appended to the buffer when formatting gives a document.
\<close>

definition drain ::
  "py_lib \<Rightarrow> metadata_handler \<times> metadata_doc list \<Rightarrow> metadata_handler \<times> metadata_doc list" where
  "drain lib st =
     (let (mh, buffer) = st;
          mh1 = mh_do (Queue_Get 1) mh
      in case data_queue mh1 of
           [] \<Rightarrow> (mh1, buffer)
         | it # rest \<Rightarrow>
             (case format_metadata lib (mh1\<lparr>data_queue := rest\<rparr>) it of
                (None, mh2) \<Rightarrow> (mh2, buffer)
              | (Some mongo_obj, mh2) \<Rightarrow> (mh2, buffer @ [mongo_obj])))"






text \<open>The batches of the bulk inserts of a trace, in order.\<close>

definition inserts_of :: "mh_event list \<Rightarrow> metadata_doc list list" where
  "inserts_of tr = concat (map (\<lambda>ev. case ev of Bulk_Insert b \<Rightarrow> [b] | _ \<Rightarrow> []) tr)"

text \<open>
  A formatted track is coerced from the fields of a track, as the specification words it:
  the coordinates of the bounding box converted by \<open>int()\<close>, the confidence by
  \<open>float()\<close>, the class id by \<open>int()\<close>, the zone attribution carried through.
\<close>

definition coerced_from :: "py_lib \<Rightarrow> details \<Rightarrow> formatted_track \<Rightarrow> bool" where
  "coerced_from lib d t \<longleftrightarrow>
     (\<exists>xs ints f l.
        py_iter (bbox_value d) = Inr xs \<and>
        list_all2 (\<lambda>x i. py_int lib x = Inr i) xs ints \<and>
        map_of t ''bbox'' = Some (Py (PList (map PInt ints))) \<and>
        np_float lib (dict_get d ''confidence'' (Py (PFloat (Fin 0)))) = Inr f \<and>
        map_of t ''confidence'' = Some (Py (PFloat f)) \<and>
        np_int lib (dict_get d ''label_id'' (Py (PInt 0))) = Inr l \<and>
        map_of t ''label'' = Some (Py (PInt l)) \<and>
        map_of t ''instance_dict'' = Some (dict_get d ''instance_dict'' (Py (PDict []))))"

text \<open>
  Builtins, a track, a payload, a handler, the item of the payload, the dict the track is
  formatted to and two observations of the worker, for evaluating the model.
\<close>

definition py_lib0 :: py_lib where
  "py_lib0 = \<lparr> parse_int = (\<lambda>s. None), parse_float = (\<lambda>s. None), repr = (\<lambda>v. ''7''),
               array_int = (\<lambda>v. Inl TypeError), array_float = (\<lambda>v. Inl TypeError),
               round_int = (\<lambda>i. of_int i) \<rparr>"

definition zones1 :: npval where
  "zones1 = Py (PDict [(PStr ''dock'', PDict [(PStr ''location'', PStr ''inside'')])])"

definition details1 :: details where
  "details1 = [(''track_id'', Py (PInt 7)),
               (''bbox'', NdArray (PList [PFloat (Fin (3 / 2)), PInt 2, PInt 30, PInt 40])),
               (''confidence'', Py (PInt 1)),
               (''label_id'', Py (PFloat (Fin 2))),
               (''label_name'', Py (PStr ''person'')),
               (''instance_dict'', zones1)]"

definition tracks1 :: meta_value where
  "tracks1 = Track_Map [(PInt 7, details1)]"

definition payload_t :: payload where
  "payload_t = payload0\<lparr>meta := [''track_ids_info'' \<mapsto> tracks1]\<rparr>"

definition mh0 :: metadata_handler where
  "mh0 = MetadataHandler_init None None None (Some ''cam-1'')"

definition item1 :: item where
  "item1 = \<lparr> item_frame_number = 0, item_time_stamp = 7, item_track_ids_info = tracks1,
             item_raw_frame_path = Value (PStr []), item_plotted_frame_path = Value (PStr []),
             item_inference_time = Value (PFloat (Fin 0)) \<rparr>"

definition track1 :: formatted_track where
  "track1 = [(''track_id'', Py (PStr ''7'')),
             (''bbox'', Py (PList [PInt 1, PInt 2, PInt 30, PInt 40])),
             (''confidence'', Py (PFloat (Fin 1))),
             (''label'', Py (PInt 2)),
             (''label_name'', Py (PStr ''person'')),
             (''instance_dict'', zones1)]"



section \<open>Properties of the frame health validator\<close>

lemma gray_size_luminance: "frame_size f \<noteq> 0 \<Longrightarrow> gray_size (luminance lib f) \<noteq> 0"
  by (cases f) (auto simp: gray_size_def cvtColor_def map_concat [symmetric])

lemma check_glitch_ok:
  "gray_size g \<noteq> 0 \<Longrightarrow>
   check_glitch v g =
     Inr (calculate_entropy g < entropy_thresh v \<or>
            real (count_above 220 g) / real (gray_size g) > white_thresh v,
          (if calculate_entropy g < entropy_thresh v then [Low_Entropy (calculate_entropy g)] else []) @
          (if real (count_above 220 g) / real (gray_size g) > white_thresh v
           then [White_Screen (real (count_above 220 g) / real (gray_size g))] else []))"
  by (simp add: check_glitch_def Let_def)

lemma validate_nonempty:
  "frame_size f \<noteq> 0 \<Longrightarrow>
   validate lib v (Some f) = Inr (image_reasons lib v f = [], image_reasons lib v f)"
  using gray_size_luminance [of f lib]
  by (simp add: validate_def check_glitch_ok check_black_screen_def check_blur_def Let_def
      image_reasons_def entropy_of_def white_ratio_of_def mean_of_def blur_of_def)

lemma image_reasons_Nil:
  "image_reasons lib v f = [] \<longleftrightarrow>
     \<not> entropy_of lib f < entropy_thresh v \<and> \<not> white_ratio_of lib f > white_thresh v \<and>
     \<not> mean_of lib f < black_thresh v \<and> \<not> blur_of lib f < blur_thresh v"
  by (simp add: image_reasons_def)

lemma validate_reason_codes:
  "validate lib v fr = Inr (reason_codes lib v fr = [], reason_codes lib v fr)"
proof (cases fr)
  case None
  then show ?thesis by (simp add: validate_def reason_codes_def)
next
  case (Some f)
  show ?thesis
  proof (cases "frame_size f = 0")
    case True
    with Some show ?thesis by (simp add: validate_def reason_codes_def)
  next
    case False
    with Some validate_nonempty [OF False] show ?thesis by (simp add: reason_codes_def)
  qed
qed

lemma luminance_plane_eq: "luminance lib f = luminance_plane lib f"
  by (cases f) (simp_all add: cvtColor_def)

lemma count_above_fraction:
  "real (count_above t g) / real (gray_size g) = fraction_above t (concat g)"
  by (simp add: count_above_def gray_size_def fraction_above_def length_filter_conv_card)

lemma sum_list_map_nth: "sum_list (map f xs) = (\<Sum>k<length xs. f (xs ! k))"
proof (induction xs rule: rev_induct)
  case Nil
  then show ?case by simp
next
  case (snoc x xs)
  have "(\<Sum>k<length xs. f ((xs @ [x]) ! k)) = (\<Sum>k<length xs. f (xs ! k))"
    by (rule sum.cong) (simp_all add: nth_append)
  with snoc show ?case by simp
qed

lemma real_sum_list_unat:
  "real (sum_list (map unat xs)) = sum_list (map (\<lambda>x. real (unat x)) xs)"
  by (induction xs) simp_all

lemma np_mean_mean: "np_mean g = mean_intensity (concat g)"
  by (simp add: np_mean_def mean_intensity_def gray_size_def sum_list_map_nth real_sum_list_unat)

lemma bij_word8: "bij_betw (of_nat :: nat \<Rightarrow> 8 word) {0..<256} UNIV"
proof (rule bij_betw_byWitness [where f' = unat])
  show "\<forall>a\<in>{0..<256}. unat (of_nat a :: 8 word) = a"
    by (simp add: unat_of_nat)
  show "\<forall>a'\<in>UNIV. of_nat (unat a') = (a' :: 8 word)" by simp
  show "(of_nat :: nat \<Rightarrow> 8 word) ` {0..<256} \<subseteq> UNIV" by simp
  show "unat ` (UNIV :: 8 word set) \<subseteq> {0..<256}"
  proof
    fix n assume "n \<in> unat ` (UNIV :: 8 word set)"
    then obtain w :: "8 word" where w: "n = unat w" by blast
    have "unat w < 2 ^ LENGTH(8)" by (rule unsigned_less)
    with w show "n \<in> {0..<256}" by simp
  qed
qed

lemma hist_sum:
  "sum_list (map (\<lambda>i. F (of_nat i :: 8 word)) [0..<256]) = (\<Sum>w\<in>UNIV. F w)"
proof -
  have "sum_list (map (\<lambda>i. F (of_nat i :: 8 word)) [0..<256]) = (\<Sum>i\<in>{0..<256}. F (of_nat i))"
    by (simp add: interv_sum_list_conv_sum_set_nat del: upt_Suc)
  also have "\<dots> = (\<Sum>w\<in>UNIV. F w)"
    by (rule sum.reindex_bij_betw [OF bij_word8])
  finally show ?thesis .
qed

lemma hist_total_list:
  "sum_list (map real (map (\<lambda>i. count_list xs (of_nat i :: 8 word)) [0..<256])) =
     real (length xs)"
proof -
  have "sum_list (map real (map (\<lambda>i. count_list xs (of_nat i :: 8 word)) [0..<256])) =
        sum_list (map (\<lambda>i. real (count_list xs (of_nat i :: 8 word))) [0..<256])"
    by (simp only: map_map comp_def)
  also have "\<dots> = (\<Sum>w\<in>UNIV. real (count_list xs w))"
    by (rule hist_sum)
  also have "\<dots> = real (\<Sum>w\<in>UNIV. count_list xs w)" by simp
  also have "\<dots> = real (length xs)"
    by (simp add: sum_count_set)
  finally show ?thesis .
qed

lemma entropy_list:
  assumes "xs \<noteq> []"
  shows "- sum_list (map (\<lambda>x. x * log 2 x)
            (filter (\<lambda>x. x > 0) (map (\<lambda>x. x / real (length xs))
               (map real (map (\<lambda>i. count_list xs (of_nat i :: 8 word)) [0..<256]))))) =
         shannon_entropy xs"
proof -
  let ?n = "real (length xs)"
  let ?G = "\<lambda>x::real. if 0 < x then x * log 2 x else 0"
  have n: "0 < ?n" using assms by simp
  have "sum_list (map (\<lambda>x. x * log 2 x)
            (filter (\<lambda>x. x > 0) (map (\<lambda>x. x / ?n)
               (map real (map (\<lambda>i. count_list xs (of_nat i :: 8 word)) [0..<256]))))) =
        sum_list (map (\<lambda>i. ?G (real (count_list xs (of_nat i :: 8 word)) / ?n)) [0..<256])"
    by (simp only: sum_list_map_filter' map_map comp_def)
  also have "\<dots> = (\<Sum>w\<in>UNIV. ?G (real (count_list xs w) / ?n))"
    by (rule hist_sum [where F = "\<lambda>w. ?G (real (count_list xs w) / ?n)"])
  also have "\<dots> = (\<Sum>w\<in>set xs. (real (count_list xs w) / ?n) * log 2 (real (count_list xs w) / ?n))"
  proof (rule sum.mono_neutral_cong_right)
    show "finite (UNIV :: 8 word set)" by simp
    show "set xs \<subseteq> UNIV" by simp
    show "\<forall>w\<in>UNIV - set xs. ?G (real (count_list xs w) / ?n) = 0"
      by simp
    show "?G (real (count_list xs w) / ?n) =
          (real (count_list xs w) / ?n) * log 2 (real (count_list xs w) / ?n)"
      if "w \<in> set xs" for w
    proof -
      from that have "count_list xs w \<noteq> 0" by (simp only: count_list_0_iff not_not)
      then have "0 < count_list xs w" by simp
      with n show ?thesis by simp
    qed
  qed
  finally show ?thesis using assms by (simp only: shannon_entropy_def if_False)
qed

lemma calculate_entropy_shannon: "calculate_entropy g = shannon_entropy (concat g)"
proof (cases "concat g = []")
  case True
  have "sum_list (map real (calcHist g)) = 0"
    unfolding calcHist_def hist_total_list True by simp
  then show ?thesis
    unfolding calculate_entropy_def Let_def shannon_entropy_def True by simp
next
  case False
  then have ns: "\<not> real (length (concat g)) \<le> 0" by simp
  show ?thesis
    unfolding calculate_entropy_def calcHist_def Let_def hist_total_list if_not_P [OF ns]
    by (rule entropy_list [OF False])
qed

lemma shannon_entropy_distinct:
  assumes "distinct xs" "xs \<noteq> []"
  shows "shannon_entropy xs = log 2 (real (length xs))"
proof -
  let ?n = "real (length xs)"
  have n: "0 < ?n" using assms(2) by simp
  have c: "count_list xs v = 1" if "v \<in> set xs" for v
    using assms(1) that by (induction xs) auto
  have "(\<Sum>v\<in>set xs. (real (count_list xs v) / ?n) * log 2 (real (count_list xs v) / ?n)) =
        (\<Sum>v\<in>set xs. (1 / ?n) * log 2 (1 / ?n))"
    by (rule sum.cong) (simp_all add: c)
  also have "\<dots> = real (card (set xs)) * ((1 / ?n) * log 2 (1 / ?n))" by simp
  also have "\<dots> = log 2 (1 / ?n)"
    using n by (simp add: distinct_card [OF assms(1)])
  also have "\<dots> = - log 2 ?n"
    using n by (simp add: log_divide)
  finally show ?thesis using assms(2) by (simp add: shannon_entropy_def)
qed

lemma measurements_spec:
  "entropy_of lib f = shannon_entropy (luminance_pixels lib f)"
  "white_ratio_of lib f = fraction_above 220 (luminance_pixels lib f)"
  "mean_of lib f = mean_intensity (luminance_pixels lib f)"
  "blur_of lib f = laplacian_var lib (luminance_plane lib f)"
  by (simp_all add: entropy_of_def white_ratio_of_def mean_of_def blur_of_def luminance_pixels_def
      luminance_plane_eq calculate_entropy_shannon count_above_fraction np_mean_mean)

lemma reason_codes_spec: "reason_codes lib v fr = spec_reason_codes lib v fr"
  by (simp add: reason_codes_def spec_reason_codes_def image_reasons_def spec_image_reasons_def
      measurements_spec split: option.splits)

lemma spec_image_reasons_Nil:
  "spec_image_reasons lib v f = [] \<longleftrightarrow>
     \<not> shannon_entropy (luminance_pixels lib f) < entropy_thresh v \<and>
     \<not> fraction_above 220 (luminance_pixels lib f) > white_thresh v \<and>
     \<not> mean_intensity (luminance_pixels lib f) < black_thresh v \<and>
     \<not> laplacian_var lib (luminance_plane lib f) < blur_thresh v"
  by (simp add: spec_image_reasons_def)

lemma fraction_above_filter:
  "fraction_above t xs = real (length (filter (\<lambda>x. t < unat x) xs)) / real (length xs)"
  by (simp add: fraction_above_def length_filter_conv_card)

lemma mean_intensity_sum_list:
  "mean_intensity xs = real (sum_list (map unat xs)) / real (length xs)"
  by (simp add: mean_intensity_def sum_list_map_nth real_sum_list_unat)

lemma log_2_16: "log 2 16 = (4::real)"
proof -
  have "log 2 (2 powr 4) = (4::real)" by (rule log_powr_cancel) simp_all
  then show ?thesis by simp
qed

lemma pixels16:
  "luminance_pixels lib1 frame16 =
     [100, 101, 102, 103, 104, 105, 106, 107, 108, 109, 110, 111, 112, 113, 114, 115]"
  by (simp add: luminance_pixels_def frame16_def)

lemma pixels_white: "luminance_pixels lib1 frame_white = [255, 255]"
  by (simp add: luminance_pixels_def frame_white_def lib1_def)

lemma entropy16: "shannon_entropy (luminance_pixels lib1 frame16) = 4"
proof -
  have "distinct (luminance_pixels lib1 frame16)" by (simp add: pixels16)
  moreover have "luminance_pixels lib1 frame16 \<noteq> []" by (simp add: pixels16)
  ultimately have "shannon_entropy (luminance_pixels lib1 frame16) =
      log 2 (real (length (luminance_pixels lib1 frame16)))"
    by (rule shannon_entropy_distinct)
  then show ?thesis by (simp add: pixels16 log_2_16)
qed

lemma entropy_white: "shannon_entropy (luminance_pixels lib1 frame_white) = 0"
  by (simp add: shannon_entropy_def pixels_white)

text \<open>
  C5. \<open>validate\<close> never raises; it returns the reason codes of the specification that
  fire, and reports the frame healthy exactly when none fires. No code fires exactly when
  the frame is present and has elements, the Shannon entropy of the 256-bin histogram of
  its luminance pixels is not below the entropy threshold, the fraction of luminance
  pixels of intensity above 220 does not exceed the white threshold, the mean luminance
  intensity is not below the black threshold and the variance of the Laplacian of the
  luminance plane is not below the blur threshold. The thresholds are those given at
  construction, by default 4.0, 0.6, 100 and 10.
\<close>

theorem validate_healthy_iff:
  "validate lib v fr = Inr (spec_reason_codes lib v fr = [], spec_reason_codes lib v fr) \<and>
   (spec_reason_codes lib v fr = [] \<longleftrightarrow>
      (\<exists>f. fr = Some f \<and> frame_size f \<noteq> 0 \<and>
        \<not> shannon_entropy (luminance_pixels lib f) < entropy_thresh v \<and>
        \<not> fraction_above 220 (luminance_pixels lib f) > white_thresh v \<and>
        \<not> mean_intensity (luminance_pixels lib f) < black_thresh v \<and>
        \<not> laplacian_var lib (luminance_plane lib f) < blur_thresh v)) \<and>
   FrameHealthValidator_init None None None None =
     \<lparr> entropy_thresh = 4, white_thresh = 6 / 10, blur_thresh = 100, black_thresh = 10 \<rparr> \<and>
   FrameHealthValidator_init (Some et) (Some wt) (Some bt) (Some kt) =
     \<lparr> entropy_thresh = et, white_thresh = wt, blur_thresh = bt, black_thresh = kt \<rparr>"
proof -
  have "spec_reason_codes lib v fr = [] \<longleftrightarrow>
      (\<exists>f. fr = Some f \<and> frame_size f \<noteq> 0 \<and>
        \<not> shannon_entropy (luminance_pixels lib f) < entropy_thresh v \<and>
        \<not> fraction_above 220 (luminance_pixels lib f) > white_thresh v \<and>
        \<not> mean_intensity (luminance_pixels lib f) < black_thresh v \<and>
        \<not> laplacian_var lib (luminance_plane lib f) < blur_thresh v)"
    by (cases fr) (auto simp: spec_reason_codes_def spec_image_reasons_Nil)
  then show ?thesis
    using validate_reason_codes [of lib v fr]
    by (simp add: reason_codes_spec FrameHealthValidator_init_def)
qed

theorem validate_healthy_iff_witness:
  "validate lib1 (FrameHealthValidator_init None None None None) (Some frame16) = Inr (True, []) \<and>
   validate lib1 (FrameHealthValidator_init None None None None) (Some frame_white) =
     Inr (False, [Low_Entropy 0, White_Screen 1]) \<and>
   validate lib0 (FrameHealthValidator_init None None None None) (Some frame16) =
     Inr (False, [Blurry 0]) \<and>
   validate lib1 (FrameHealthValidator_init None None None None) (Some (BGR [[]])) =
     Inr (False, [Empty_Frame]) \<and>
   validate lib1 (FrameHealthValidator_init None None None None) None =
     Inr (False, [Empty_Frame])"
proof -
  let ?v = "FrameHealthValidator_init None None None None"
  have v: "entropy_thresh ?v = 4" "white_thresh ?v = 6 / 10" "blur_thresh ?v = 100"
    "black_thresh ?v = 10"
    by (simp_all add: FrameHealthValidator_init_def)
  have l: "laplacian_var lib1 g = 500" "laplacian_var lib0 g = 0" for g
    by (simp_all add: lib1_def lib0_def)
  have p0: "luminance_pixels lib0 frame16 = luminance_pixels lib1 frame16"
    by (simp add: luminance_pixels_def frame16_def)
  have s: "frame_size frame16 \<noteq> 0" "frame_size frame_white \<noteq> 0"
    by (simp_all add: frame16_def frame_white_def gray_size_def)
  have f16: "fraction_above 220 (luminance_pixels lib1 frame16) = 0"
    by (simp add: fraction_above_filter pixels16)
  have m16: "mean_intensity (luminance_pixels lib1 frame16) = 1720 / 16"
    by (simp add: mean_intensity_sum_list pixels16)
  have fw: "fraction_above 220 (luminance_pixels lib1 frame_white) = 1"
    by (simp add: fraction_above_filter pixels_white)
  have mw: "mean_intensity (luminance_pixels lib1 frame_white) = 255"
    by (simp add: mean_intensity_sum_list pixels_white)
  have 1: "spec_reason_codes lib1 ?v (Some frame16) = []"
    by (simp add: spec_reason_codes_def spec_image_reasons_def entropy16 f16 m16 v l s)
  have 2: "spec_reason_codes lib1 ?v (Some frame_white) = [Low_Entropy 0, White_Screen 1]"
    by (simp add: spec_reason_codes_def spec_image_reasons_def entropy_white fw mw v l s)
  have 3: "spec_reason_codes lib0 ?v (Some frame16) = [Blurry 0]"
    by (simp add: spec_reason_codes_def spec_image_reasons_def p0 entropy16 f16 m16 v l s)
  have 4: "spec_reason_codes lib1 ?v (Some (BGR [[]])) = [Empty_Frame]"
    "spec_reason_codes lib1 ?v None = [Empty_Frame]"
    by (simp_all add: spec_reason_codes_def)
  from validate_healthy_iff [of lib1 ?v "Some frame16", THEN conjunct1]
    validate_healthy_iff [of lib1 ?v "Some frame_white", THEN conjunct1]
    validate_healthy_iff [of lib0 ?v "Some frame16", THEN conjunct1]
    validate_healthy_iff [of lib1 ?v "Some (BGR [[]])", THEN conjunct1]
    validate_healthy_iff [of lib1 ?v None, THEN conjunct1]
  show ?thesis by (simp only: 1 2 3 4) simp
qed

section \<open>Properties of the health monitor\<close>

lemma health_tick_connected:
  "is_connected (snd (health_tick lib now (h, cam))) \<longleftrightarrow>
     now - last_frame_time cam < max 5 (10 * (1 / max 1 (fps cam)))"
  by (simp add: health_tick_def Let_def log_health_status_def cam_log_def mult.commute
      split: option.splits sum.splits prod.splits)

text \<open>
  C4 (as amended). On each health tick the source is classified as connected exactly when
  the freshness, now minus the last-frame time, is below
  \<open>max(5.0, 10 \<times> 1/max(1.0, fps))\<close> seconds: a frame rate below 1 counts as 1. For
  every frame rate of at least 1 this is the threshold \<open>max(5.0, 10 \<times> 1/fps)\<close> of
  the specification.
\<close>

theorem health_threshold:
  "(is_connected (snd (health_tick lib now (h, cam))) \<longleftrightarrow>
      now - last_frame_time cam < max 5 (10 * (1 / max 1 (fps cam)))) \<and>
   (1 \<le> fps cam \<longrightarrow>
      (is_connected (snd (health_tick lib now (h, cam))) \<longleftrightarrow>
         now - last_frame_time cam < spec_threshold (fps cam)))"
  using health_tick_connected [of lib now h cam]
  by (simp add: spec_threshold_def max_def)

text \<open>
  At half a frame per second the specification's threshold is 20 seconds and the code's
  is 10: a frame that is 15 seconds old is classified as not connected.
\<close>

theorem health_threshold_counterexample:
  "\<not> (is_connected (snd (health_tick lib0 15 ([], cam0\<lparr>fps := 1 / 2\<rparr>))) \<longleftrightarrow>
       15 - last_frame_time (cam0\<lparr>fps := 1 / 2\<rparr>) < spec_threshold (1 / 2))"
  by (simp add: health_tick_connected cam0_def IP_Camera_init_def spec_threshold_def)

theorem health_threshold_witness:
  "(1::real) \<le> fps (cam0\<lparr>fps := 25\<rparr>) \<and>
   is_connected (snd (health_tick lib0 3 ([], cam0\<lparr>fps := 25\<rparr>))) \<and>
   \<not> is_connected (snd (health_tick lib0 5 ([], cam0\<lparr>fps := 25\<rparr>)))"
  using health_threshold [of lib0 3 "[]" "cam0\<lparr>fps := 25\<rparr>"]
    health_threshold [of lib0 5 "[]" "cam0\<lparr>fps := 25\<rparr>"]
  by (simp add: cam0_def IP_Camera_init_def spec_threshold_def)

lemma Disconnected_notin_reason_codes: "Disconnected \<notin> set (reason_codes lib v fr)"
  by (auto simp: reason_codes_def image_reasons_def split: option.splits)

lemma health_tick_fields:
  "health_tick lib now (h, cam) = (h', cam') \<Longrightarrow>
   (if is_connected cam' \<and> last_frame cam \<noteq> None
    then is_corrupted cam' =
           (reason_codes lib (health_validator cam) (Some (h ! the (last_frame cam))) \<noteq> []) \<and>
         health_issues cam' =
           reason_codes lib (health_validator cam) (Some (h ! the (last_frame cam)))
    else \<not> is_corrupted cam' \<and> health_issues cam' = [Disconnected])"
  by (auto simp: health_tick_def Let_def log_health_status_def cam_log_def copy_array_def alloc_def
      validate_reason_codes nth_append
      split: option.splits sum.splits prod.splits if_splits)

lemma health_tick_frame: "last_frame (snd (health_tick lib now (h, cam))) = last_frame cam"
  by (auto simp: health_tick_def Let_def log_health_status_def cam_log_def copy_array_def alloc_def
      validate_reason_codes
      split: option.splits sum.splits prod.splits if_splits)

lemma health_tick_inv: "health_inv (snd (health_tick lib now (h, cam)))"
proof -
  obtain h' cam' where t: "health_tick lib now (h, cam) = (h', cam')"
    by (cases "health_tick lib now (h, cam)")
  from health_tick_fields [OF t] health_tick_frame [of lib now h cam] t
  show ?thesis by (auto simp: health_inv_def split: if_splits)
qed

lemma health_loop_inv: "ts \<noteq> [] \<Longrightarrow> health_inv (snd (health_loop lib interval ts hc))"
proof (induction ts arbitrary: hc)
  case Nil
  then show ?case by simp
next
  case (Cons now ts)
  show ?case
  proof (cases ts)
    case Nil
    then show ?thesis
      using health_tick_inv [of lib now "fst hc" "cam_do (Cam_Sleep interval) (snd hc)"] by simp
  next
    case (Cons a list)
    then show ?thesis using Cons.IH by simp
  qed
qed

text \<open>
  C10. After a health tick run from any state, and so after every tick of the health
  loop: if \<open>is_connected\<close> is false then \<open>is_corrupted\<close> is false and the issues are
  \<open>[Disconnected]\<close>; the corrupted flag is set, and the issues differ from
  \<open>[Disconnected]\<close>, only when the source is classified as connected and a frame is
  buffered, and then they are what the validator finds on the buffered frame.
\<close>

theorem health_tick_invariant:
  "health_inv (snd (health_tick lib now (h, cam))) \<and>
   (ts \<noteq> [] \<longrightarrow> health_inv (snd (health_loop lib interval ts (h, cam)))) \<and>
   (is_connected (snd (health_tick lib now (h, cam))) \<and> last_frame cam = Some a \<longrightarrow>
      health_issues (snd (health_tick lib now (h, cam))) =
        reason_codes lib (health_validator cam) (Some (h ! a)) \<and>
      is_corrupted (snd (health_tick lib now (h, cam))) =
        (reason_codes lib (health_validator cam) (Some (h ! a)) \<noteq> []))"
proof -
  obtain h' cam' where t: "health_tick lib now (h, cam) = (h', cam')"
    by (cases "health_tick lib now (h, cam)")
  from health_tick_fields [OF t] t
  have "is_connected (snd (health_tick lib now (h, cam))) \<and> last_frame cam = Some a \<longrightarrow>
      health_issues (snd (health_tick lib now (h, cam))) =
        reason_codes lib (health_validator cam) (Some (h ! a)) \<and>
      is_corrupted (snd (health_tick lib now (h, cam))) =
        (reason_codes lib (health_validator cam) (Some (h ! a)) \<noteq> [])"
    by (auto split: if_splits)
  then show ?thesis
    using health_tick_inv [of lib now h cam] health_loop_inv [of ts lib interval "(h, cam)"]
    by blast
qed

theorem health_tick_invariant_witness:
  "\<not> is_connected (snd (health_tick lib0 100 ([Gray [[255]]], cam0\<lparr>last_frame := Some 0\<rparr>))) \<and>
   \<not> is_corrupted (snd (health_tick lib0 100 ([Gray [[255]]], cam0\<lparr>last_frame := Some 0\<rparr>))) \<and>
   health_issues (snd (health_tick lib0 100 ([Gray [[255]]], cam0\<lparr>last_frame := Some 0\<rparr>))) =
     [Disconnected] \<and>
   is_connected (snd (health_tick lib0 3 ([Gray [[255]]], cam0\<lparr>last_frame := Some 0\<rparr>))) \<and>
   is_corrupted (snd (health_tick lib0 3 ([Gray [[255]]], cam0\<lparr>last_frame := Some 0\<rparr>)))"
proof -
  let ?c = "cam0\<lparr>last_frame := Some 0\<rparr>"
  have d: "\<not> is_connected (snd (health_tick lib0 100 ([Gray [[255]]], ?c)))"
    by (simp add: health_tick_connected cam0_def IP_Camera_init_def)
  have c: "is_connected (snd (health_tick lib0 3 ([Gray [[255]]], ?c)))"
    by (simp add: health_tick_connected cam0_def IP_Camera_init_def)
  have r: "reason_codes lib0 (health_validator ?c) (Some ([Gray [[255]]] ! 0)) \<noteq> []"
    by (simp add: reason_codes_def image_reasons_def gray_size_def blur_of_def lib0_def
        cam0_def IP_Camera_init_def FrameHealthValidator_init_def)
  from d health_tick_invariant [of lib0 100 "[Gray [[255]]]" ?c "[]"]
  have "\<not> is_corrupted (snd (health_tick lib0 100 ([Gray [[255]]], ?c))) \<and>
        health_issues (snd (health_tick lib0 100 ([Gray [[255]]], ?c))) = [Disconnected]"
    by (simp add: health_inv_def)
  moreover from c r health_tick_invariant [of lib0 3 "[Gray [[255]]]" ?c "[]" undefined 0]
  have "is_corrupted (snd (health_tick lib0 3 ([Gray [[255]]], ?c)))"
    by simp
  ultimately show ?thesis using c d by simp
qed

section \<open>Properties of the frame source\<close>

text \<open>
  C6. \<open>read\<close> is a function of the state alone: it waits for nothing and always
  returns. It returns \<open>(False, None)\<close>, and leaves the store as it is, whenever the
  source is closed or no frame has been buffered. Otherwise it returns \<open>True\<close> and a
  reference to a new array: one that did not exist before, so that it differs from the
  buffer slot and from every other array, with the content of the buffered frame; the
  arrays that existed keep their content, and writing to the copy leaves the buffered
  frame as it was.
\<close>

theorem read_copy:
  "(\<not> is_open cam \<or> last_frame cam = None \<longrightarrow> read (h, cam) = ((False, None), h)) \<and>
   (is_open cam \<and> last_frame cam = Some a \<and> a < length h \<longrightarrow>
      (\<exists>c h'. read (h, cam) = ((True, Some c), h') \<and>
         c \<noteq> a \<and> \<not> c < length h \<and> c < length h' \<and>
         h' ! c = h ! a \<and>
         (\<forall>b. b < length h \<longrightarrow> h' ! b = h ! b) \<and>
         (\<forall>img. (h'[c := img]) ! a = h ! a)))"
  by (auto simp: read_def copy_array_def alloc_def nth_append split: option.splits)

theorem read_copy_witness:
  "read ([Gray [[7]]], cam0\<lparr>is_open := True, last_frame := Some 0\<rparr>) =
     ((True, Some 1), [Gray [[7]], Gray [[7]]]) \<and>
   read ([Gray [[7]]], cam0\<lparr>last_frame := Some 0\<rparr>) = ((False, None), [Gray [[7]]]) \<and>
   read ([Gray [[7]]], cam0\<lparr>is_open := True\<rparr>) = ((False, None), [Gray [[7]]])"
  using read_copy [of "cam0\<lparr>is_open := True, last_frame := Some 0\<rparr>" "[Gray [[7]]]" 0]
    read_copy [of "cam0\<lparr>last_frame := Some 0\<rparr>" "[Gray [[7]]]" 0]
    read_copy [of "cam0\<lparr>is_open := True\<rparr>" "[Gray [[7]]]" 0]
  by (simp add: cam0_def IP_Camera_init_def read_def copy_array_def alloc_def)










section \<open>Properties of the pipeline runtime\<close>



lemma run_turns_raised_append:
  "run_turns ms es st = (Loop_Raised x, st') \<Longrightarrow> run_turns ms (es @ fs) st = (Loop_Raised x, st')"
  by (induction ms es st rule: run_turns.induct)
    (auto split: if_splits read_outcome.splits option.splits prod.splits stage_result.splits)

lemma run_turns_running_append:
  "run_turns ms es st = (Loop_Running, st') \<Longrightarrow> run_turns ms (es @ fs) st = run_turns ms fs st'"
  by (induction ms es st rule: run_turns.induct)
    (auto split: if_splits read_outcome.splits option.splits prod.splits stage_result.splits)

lemma run_turns_frame:
  assumes "\<not> shutdown e" "camera_open e" "cap_read e = Read_Returns True (Some img)"
    "create_payload (eng_store st) img (utc_now e) (frame_count st) = (p, h)"
    "run_stages ms 0 p (h, world st) = ((r, (h', w')), evs)"
  shows "run_turns ms (e # es) st =
     (case r of
        Raised x \<Rightarrow> (Loop_Raised x, st\<lparr>eng_store := h', world := w', eng_trace := eng_trace st @ evs\<rparr>)
      | Returned q \<Rightarrow> run_turns ms es
            (st\<lparr>eng_store := h', world := w', eng_trace := eng_trace st @ evs,
                frame_count := frame_count st + 1\<rparr>))"
  using assms by (simp split: stage_result.splits)

lemma cp0: "create_payload [] img0 7 0 = (payload0, [img0, img0])"
  by (simp add: create_payload_def alloc_def copy_array_def payload0_def)

lemma cp1: "create_payload [img0, img0] img0 7 1 = (payload1, [img0, img0, img0, img0])"
  by (simp add: create_payload_def alloc_def copy_array_def payload1_def)

text \<open>
  C1 (as amended). A stage that raises is fatal to the whole capture loop, not to the
  current frame only. Let the loop have run some turns and still be running; if in the
  next turn a frame is captured and a stage raises on it, then \<open>run\<close> leaves the loop
  with the state as the stages left it, logs the error (Pipeline Runtime Error) and calls
  \<open>cleanup\<close>, and nothing else: the frame count is not advanced, no later frame is
  captured and no stage is called again, whatever the camera would have delivered.
\<close>

theorem stage_exception_ends_run:
  assumes "run_turns ms ps (eng_do (Eng_Log INFO ''Pipeline Started.'') (s\<lparr>frame_count := 0\<rparr>)) =
             (Loop_Running, st)"
    and "\<not> shutdown e" "camera_open e" "cap_read e = Read_Returns True (Some img)"
    and "create_payload (eng_store st) img (utc_now e) (frame_count st) = (p, h)"
    and "run_stages ms 0 p (h, world st) = ((Raised x, (h', w')), evs)"
  shows "run ms (ps @ e # es) s =
           (Loop_Raised x,
            st\<lparr>eng_store := h', world := w',
               eng_trace := eng_trace st @ evs @
                 [Eng_Log ERROR (''Pipeline Runtime Error: '' @ x), Cleanup_Call]\<rparr>) \<and>
         run ms (ps @ e # es) s = run ms (ps @ [e]) s"
proof -
  have "run_turns ms (e # fs) st =
      (Loop_Raised x, st\<lparr>eng_store := h', world := w', eng_trace := eng_trace st @ evs\<rparr>)" for fs
    using run_turns_frame [OF assms(2-6), of fs] by simp
  then have "run_turns ms (ps @ e # fs) (eng_do (Eng_Log INFO ''Pipeline Started.'') (s\<lparr>frame_count := 0\<rparr>)) =
      (Loop_Raised x, st\<lparr>eng_store := h', world := w', eng_trace := eng_trace st @ evs\<rparr>)" for fs
    using run_turns_running_append [OF assms(1)] by simp
  then show ?thesis by (simp add: run_def eng_do_def)
qed

text \<open>
  Two frames are there to be captured and the only stage raises on the first: the second
  frame is never captured, the single call of the run is the one that raised.
\<close>

theorem stage_exception_counterexample:
  "run [stage_boom] [env_frame, env_frame] eng0 =
     (Loop_Raised ''boom'',
      \<lparr> eng_store = [img0, img0], world = 0, frame_count = 0,
        eng_trace = [Eng_Log INFO ''Pipeline Started.'', Call 0 payload0 (Raised ''boom''),
                     Eng_Log ERROR ''Pipeline Runtime Error: boom'', Cleanup_Call] \<rparr>) \<and>
   length (filter (\<lambda>ev. call_index ev \<noteq> None)
     (eng_trace (snd (run [stage_boom] [env_frame, env_frame] eng0)))) = 1"
  by (simp add: run_def eng_do_def eng0_def env_frame_def cp0 stage_boom_def)

theorem stage_exception_ends_run_witness:
  "run [stage_flaky] [env_frame, env_frame, env_frame] eng0 =
     (Loop_Raised ''boom'',
      \<lparr> eng_store = [img0, img0, img0, img0], world = 1, frame_count = 1,
        eng_trace = [Eng_Log INFO ''Pipeline Started.'', Call 0 payload0 (Returned (Some payload0)),
                     Call 0 payload1 (Raised ''boom''),
                     Eng_Log ERROR ''Pipeline Runtime Error: boom'', Cleanup_Call] \<rparr>)"
proof -
  have a: "run_turns [stage_flaky] [env_frame]
             (eng_do (Eng_Log INFO ''Pipeline Started.'') (eng0\<lparr>frame_count := 0\<rparr>)) =
           (Loop_Running, eng1)"
    by (simp add: eng_do_def eng0_def eng1_def env_frame_def cp0 stage_flaky_def)
  have b: "\<not> shutdown env_frame" "camera_open env_frame"
    "cap_read env_frame = Read_Returns True (Some img0)"
    by (simp_all add: env_frame_def)
  have c: "create_payload (eng_store eng1) img0 (utc_now env_frame) (frame_count eng1) =
             (payload1, [img0, img0, img0, img0])"
    using cp1 by (simp add: eng1_def env_frame_def)
  have d: "run_stages [stage_flaky] 0 payload1 ([img0, img0, img0, img0], world eng1) =
             ((Raised ''boom'', ([img0, img0, img0, img0], 1)), [Call 0 payload1 (Raised ''boom'')])"
    by (simp add: stage_flaky_def eng1_def)
  from stage_exception_ends_run [OF a b c d, of "[env_frame]"]
  show ?thesis by (simp add: eng1_def)
qed



section \<open>Properties of the metadata handler\<close>

lemma make_item1: "make_item payload_t tracks1 = item1"
  by (simp add: make_item_def payload_t_def payload0_def item1_def meta_get_def)

text \<open>
  C9. For every payload and every state of the handler, \<open>process\<close> returns the payload
  it was given, as it was given, and never None; as a stage it leaves the arrays alone.
  When \<open>meta\<close> has an entry \<open>track_ids_info\<close> that is not empty (it is true as a
  condition), the only change of the handler's state is one item appended to the queue,
  made from the payload; otherwise the state is exactly as before. So the state changes
  only when such an entry is there.
\<close>

theorem process_passthrough:
  "fst (process mh p) = Returned (Some p) \<and>
   fst (process mh p) \<noteq> Returned None \<and>
   process_stage p (h, mh) = (Returned (Some p), (h, snd (process mh p))) \<and>
   (meta_truthy (meta p ''track_ids_info'') \<longrightarrow>
      (\<exists>ti. meta p ''track_ids_info'' = Some ti \<and>
            snd (process mh p) = mh\<lparr>data_queue := data_queue mh @ [make_item p ti]\<rparr>)) \<and>
   (\<not> meta_truthy (meta p ''track_ids_info'') \<longrightarrow> snd (process mh p) = mh) \<and>
   (snd (process mh p) \<noteq> mh \<longrightarrow> meta_truthy (meta p ''track_ids_info''))"
  by (auto simp: process_def process_stage_def split: option.splits)

theorem process_passthrough_witness:
  "meta_truthy (meta payload_t ''track_ids_info'') \<and>
   fst (process mh0 payload_t) = Returned (Some payload_t) \<and>
   snd (process mh0 payload_t) = mh0\<lparr>data_queue := data_queue mh0 @ [item1]\<rparr> \<and>
   \<not> meta_truthy (meta payload0 ''track_ids_info'') \<and>
   fst (process mh0 payload0) = Returned (Some payload0) \<and>
   snd (process mh0 payload0) = mh0"
proof -
  have t: "meta_truthy (meta payload_t ''track_ids_info'')"
    and s: "meta payload_t ''track_ids_info'' = Some tracks1"
    by (simp_all add: payload_t_def tracks1_def)
  have f: "\<not> meta_truthy (meta payload0 ''track_ids_info'')"
    by (simp add: payload0_def)
  from process_passthrough [of mh0 payload_t] t obtain ti
    where ti: "meta payload_t ''track_ids_info'' = Some ti"
      and q: "snd (process mh0 payload_t) = mh0\<lparr>data_queue := data_queue mh0 @ [make_item payload_t ti]\<rparr>"
    by blast
  from ti s have "ti = tracks1" by simp
  with q make_item1
  have 1: "snd (process mh0 payload_t) = mh0\<lparr>data_queue := data_queue mh0 @ [item1]\<rparr>"
    by simp
  from process_passthrough [of mh0 payload_t]
  have 2: "fst (process mh0 payload_t) = Returned (Some payload_t)" by blast
  from process_passthrough [of mh0 payload0] f
  have 3: "fst (process mh0 payload0) = Returned (Some payload0)"
    "snd (process mh0 payload0) = mh0"
    by blast+
  from t f 1 2 3 show ?thesis by blast
qed

lemma inserts_of_append [simp]: "inserts_of (xs @ ys) = inserts_of xs @ inserts_of ys"
  by (simp add: inserts_of_def)

lemma inserts_of_simps [simp]:
  "inserts_of [] = []"
  "inserts_of (Bulk_Insert b # tr) = b # inserts_of tr"
  "inserts_of (Queue_Get x # tr) = inserts_of tr"
  "inserts_of (MH_Log l m # tr) = inserts_of tr"
  by (simp_all add: inserts_of_def)

lemma map_err_Inr: "map_err f xs = Inr ys \<Longrightarrow> list_all2 (\<lambda>x y. f x = Inr y) xs ys"
  by (induction xs arbitrary: ys) (auto split: sum.splits)

lemma format_track_coerced: "format_track lib d = Inr t \<Longrightarrow> coerced_from lib d t"
  unfolding format_track_def coerced_from_def
  by (auto split: sum.splits dest: map_err_Inr)

lemma Document_init_device: "Document_init Metadata_fields format_keywords = Some FieldDoesNotExist"
  by (simp add: Document_init_def Metadata_fields_def format_keywords_def)

lemma format_try_raises: "\<exists>e. format_try lib mh it = Inl e"
  by (simp add: format_try_def Document_init_device Let_def split: sum.splits)

lemma format_metadata_drops_all:
  "format_metadata lib mh it = (None, mh_do (MH_Log ERROR ''Metadata formatting error'') mh)"
  using format_try_raises [of lib mh it] by (auto simp: format_metadata_def)

lemma drain_eq:
  "drain lib (mh, buffer) =
     (case data_queue mh of
        [] \<Rightarrow> (mh\<lparr>mh_trace := mh_trace mh @ [Queue_Get 1]\<rparr>, buffer)
      | it # rest \<Rightarrow>
          (mh\<lparr>mh_trace := mh_trace mh @ [Queue_Get 1, MH_Log ERROR ''Metadata formatting error''],
              data_queue := rest\<rparr>, buffer))"
  by (simp add: drain_def format_metadata_drops_all mh_do_def Let_def split: list.splits)

lemma drain_keeps:
  "snd (drain lib (mh, buffer)) = buffer"
  "inserts_of (mh_trace (fst (drain lib (mh, buffer)))) = inserts_of (mh_trace mh)"
  "batch_size (fst (drain lib (mh, buffer))) = batch_size mh"
  "flush_interval (fst (drain lib (mh, buffer))) = flush_interval mh"
  by (simp_all add: drain_eq split: list.splits)




lemma format_track1: "format_track py_lib0 details1 = Inr track1"
  by (simp add: format_track_def details1_def bbox_value_def dict_get_def py_lib0_def
      trunc_real_def track1_def int_to_float_def)

lemma repr0: "repr py_lib0 v = ''7''"
  by (simp add: py_lib0_def)

text \<open>
  C8. \<open>_format_metadata\<close> coerces the tracks of a record: every coordinate of the
  bounding box with \<open>int\<close>, the confidence with \<open>float\<close>, the class id with \<open>int\<close>, the
  zone-attribution map carried through. It then calls the constructor of \<open>Metadata\<close>
  with the keyword \<open>device\<close>, which the schema does not declare (it declares
  \<open>device_name\<close>): the constructor raises \<open>FieldDoesNotExist\<close>, the handler of
  \<open>_format_metadata\<close> logs the error and returns None. So the record of one track with
  an ndarray box \<open>[1.5, 2, 30, 40]\<close>, confidence 1 and class id 2.0 has its track
  coerced to box \<open>[1, 2, 30, 40]\<close>, confidence 1.0 and class id 2, and is dropped all
  the same, leaving the buffer of the worker empty; and whatever the record and the
  state of the handler, \<open>_format_metadata\<close> returns None and the worker's buffer is after
  the poll what it was before: no record is ever buffered.
\<close>

theorem format_metadata_drops:
  "track_items (item_track_ids_info item1) = Inr [(PInt 7, Inr details1)] \<and>
   format_tracks py_lib0 [(PInt 7, Inr details1)] [] = Inr [(''7'', track1)] \<and>
   coerced_from py_lib0 details1 track1 \<and>
   meta_float py_lib0 (item_inference_time item1) = Inr (Fin 0) \<and>
   format_try py_lib0 mh0 item1 = Inl FieldDoesNotExist \<and>
   format_metadata py_lib0 mh0 item1 =
     (None, mh_do (MH_Log ERROR ''Metadata formatting error'') mh0) \<and>
   drain py_lib0 (mh0\<lparr>data_queue := [item1]\<rparr>, []) =
     (mh0\<lparr>mh_trace := mh_trace mh0 @ [Queue_Get 1, MH_Log ERROR ''Metadata formatting error''],
         data_queue := []\<rparr>, []) \<and>
   fst (format_metadata lib mh it) = None \<and>
   snd (drain lib (mh, buffer)) = buffer"
proof -
  have 1: "track_items (item_track_ids_info item1) = Inr [(PInt 7, Inr details1)]"
    by (simp add: item1_def tracks1_def)
  have 2: "format_tracks py_lib0 [(PInt 7, Inr details1)] [] = Inr [(''7'', track1)]"
    by (simp add: format_track1 repr0)
  have 3: "coerced_from py_lib0 details1 track1"
    using format_track1 by (rule format_track_coerced)
  have 4: "meta_float py_lib0 (item_inference_time item1) = Inr (Fin 0)"
    by (simp add: item1_def)
  have 5: "format_try py_lib0 mh0 item1 = Inl FieldDoesNotExist"
    by (simp add: format_try_def 1 format_track1 repr0 4 Document_init_device Let_def)
  have 6: "drain py_lib0 (mh0\<lparr>data_queue := [item1]\<rparr>, []) =
     (mh0\<lparr>mh_trace := mh_trace mh0 @ [Queue_Get 1, MH_Log ERROR ''Metadata formatting error''],
         data_queue := []\<rparr>, [])"
    by (simp add: drain_eq)
  from 1 2 3 4 5 6 show ?thesis
    by (simp add: format_metadata_drops_all drain_keeps)
qed


end
